theory Spec2Isabelle
  imports Complex_Main "HOL-Library.Word"
begin

unbundle bit_operations_syntax

section \<open>Machine types and the stdio streams of m4afile.c\<close>

type_synonym uint8_t = "8 word"
type_synonym uint32_t = "32 word"

text \<open>
  A \<^verbatim>\<open>FILE *\<close> opened for reading on a regular file: the read position and the
  end-of-file indicator. The bytes of the file are kept in the \<open>M4AFile\<close> record, since
  both streams of an \<open>M4AFile\<close> are opened on the same file. I/O errors (\<^verbatim>\<open>ferror\<close>)
  do not occur on this backing store.
\<close>

record FILE =
  filePosition :: nat
  eofIndicator :: bool

definition fopen :: FILE where
  "fopen = \<lparr>filePosition = 0, eofIndicator = False\<rparr>"

definition feof :: "FILE \<Rightarrow> bool" where
  "feof stream = eofIndicator stream"

definition ftell :: "FILE \<Rightarrow> nat" where
  "ftell stream = filePosition stream"

text \<open>\<^verbatim>\<open>LONG_MAX\<close> of an LP64 platform: the largest file offset \<^verbatim>\<open>fseek\<close> accepts.\<close>

definition LONG_MAX :: nat where
  "LONG_MAX = 2 ^ 63 - 1"

text \<open>
  \<^verbatim>\<open>fseek(stream, offset, SEEK_SET)\<close> and \<^verbatim>\<open>fseek(stream, offset, SEEK_CUR)\<close> for the
  offsets the program passes (a \<^verbatim>\<open>uint32_t\<close> converted to \<^verbatim>\<open>long\<close>, so never negative).
  Seeking beyond the end of the file succeeds; a position that does not fit a \<^verbatim>\<open>long\<close>
  fails and leaves the stream as it was. Success clears the end-of-file indicator.
  \<open>None\<close> is the non-zero return value.
\<close>

definition fseek_SET :: "FILE \<Rightarrow> nat \<Rightarrow> FILE option" where
  "fseek_SET stream offset =
     (if offset \<le> LONG_MAX then Some \<lparr>filePosition = offset, eofIndicator = False\<rparr> else None)"

definition fseek_CUR :: "FILE \<Rightarrow> nat \<Rightarrow> FILE option" where
  "fseek_CUR stream offset =
     (if filePosition stream + offset \<le> LONG_MAX
      then Some \<lparr>filePosition = filePosition stream + offset, eofIndicator = False\<rparr>
      else None)"

text \<open>
  \<^verbatim>\<open>(uint32_t)fgetc(stream)\<close>: the next byte, or \<^verbatim>\<open>EOF\<close> (-1, which the cast turns into
  \<open>0xffffffff\<close>) with the end-of-file indicator set.
\<close>

definition fgetc :: "uint8_t list \<Rightarrow> FILE \<Rightarrow> uint32_t \<times> FILE" where
  "fgetc bytes stream =
     (if filePosition stream < length bytes
      then (ucast (bytes ! filePosition stream), stream\<lparr>filePosition := filePosition stream + 1\<rparr>)
      else (0xffffffff, stream\<lparr>eofIndicator := True\<rparr>))"

text \<open>
  \<^verbatim>\<open>fread(data, 1, dataSize, stream)\<close>: the bytes read and the stream afterwards. Fewer
  than \<open>dataSize\<close> bytes are returned only at the end of the file, which sets the indicator.
\<close>

definition fread :: "uint8_t list \<Rightarrow> nat \<Rightarrow> FILE \<Rightarrow> uint8_t list \<times> FILE" where
  "fread bytes dataSize stream =
     (let available = take dataSize (drop (filePosition stream) bytes) in
      if length available = dataSize
      then (available, stream\<lparr>filePosition := filePosition stream + dataSize\<rparr>)
      else (available, stream\<lparr>filePosition := filePosition stream + length available,
                               eofIndicator := True\<rparr>))"

definition read4ByteUnsignedInt32 :: "uint8_t list \<Rightarrow> FILE \<Rightarrow> uint32_t \<times> FILE" where
  "read4ByteUnsignedInt32 bytes stream =
     (let (c1, s1) = fgetc bytes stream;
          result = push_bit 8 c1;
          (c2, s2) = fgetc bytes s1;
          result = push_bit 8 (result OR c2);
          (c3, s3) = fgetc bytes s2;
          result = push_bit 8 (result OR c3);
          (c4, s4) = fgetc bytes s3
      in (result OR c4, s4))"

definition didReadErrorOccur :: "FILE \<Rightarrow> bool" where
  "didReadErrorOccur stream = feof stream"

section \<open>The M4A file descriptor (m4afile.c)\<close>

datatype M4AFileEncoding = ENCODING_UNKNOWN | ENCODING_ALAC | ENCODING_AAC

datatype M4AFileStatus = M4AFILE_OK | M4AFILE_ERROR | M4AFILE_PARSED_WITH_WARNINGS

text \<open>
  \<^verbatim>\<open>struct M4AFileStruct\<close>. \<open>metadataHandler\<close> tells whether a handler is registered
  (the pointer is not \<^verbatim>\<open>NULL\<close>); \<open>metadataHandled\<close> lists the calls made to it:
  box type, payload and metadata type.
\<close>

record M4AFile =
  fileBytes :: "uint8_t list"
  dataStream :: FILE
  sizeStream :: FILE
  dataOffset :: uint32_t
  sizeOffset :: uint32_t
  totalSize :: uint32_t
  samplesCount :: uint32_t
  totalSampleSize :: uint32_t
  largestSampleSize :: uint32_t
  timescale :: uint32_t
  duration :: uint32_t
  encoding :: M4AFileEncoding
  status :: M4AFileStatus
  metadataHandler :: bool
  metadataHandled :: "(uint32_t \<times> uint8_t list \<times> uint32_t) list"

record timespec =
  tv_sec :: int
  tv_nsec :: int

definition UNUSED_OFFSET :: uint32_t where
  "UNUSED_OFFSET = 0xffffffff"

definition DEFAULT_FRAMES_PER_PACKET :: int where
  "DEFAULT_FRAMES_PER_PACKET = 4096"

definition ONE_SECOND_IN_NANO_SECONDS :: int where
  "ONE_SECOND_IN_NANO_SECONDS = 1000000000"

text \<open>
  \<^verbatim>\<open>m4aFileOpen\<close> on a file that can be opened: \<^verbatim>\<open>m4aFileInitialize\<close>, then both streams
  at the start of the file and its size in \<open>totalSize\<close>. The structure comes from
  \<^verbatim>\<open>malloc\<close> and \<^verbatim>\<open>m4aFileInitialize\<close> does not assign \<open>samplesCount\<close> and
  \<open>totalSampleSize\<close>: their initial values are whatever the memory held, given here as
  \<open>uninitSamplesCount\<close> and \<open>uninitTotalSampleSize\<close>.
\<close>

definition m4aFileInitialize :: "uint8_t list \<Rightarrow> uint32_t \<Rightarrow> uint32_t \<Rightarrow> M4AFile" where
  "m4aFileInitialize bytes uninitSamplesCount uninitTotalSampleSize =
     \<lparr>fileBytes = bytes, dataStream = fopen, sizeStream = fopen,
      dataOffset = UNUSED_OFFSET, sizeOffset = UNUSED_OFFSET, totalSize = 0,
      samplesCount = uninitSamplesCount, totalSampleSize = uninitTotalSampleSize,
      largestSampleSize = 0, timescale = 0, duration = 0,
      encoding = ENCODING_UNKNOWN, status = M4AFILE_OK,
      metadataHandler = False, metadataHandled = []\<rparr>"

definition m4aFileOpen :: "uint8_t list \<Rightarrow> uint32_t \<Rightarrow> uint32_t \<Rightarrow> M4AFile" where
  "m4aFileOpen bytes uninitSamplesCount uninitTotalSampleSize =
     (m4aFileInitialize bytes uninitSamplesCount uninitTotalSampleSize)
       \<lparr>totalSize := of_nat (length bytes)\<rparr>"

definition m4aFileSetMetadataHandler :: "M4AFile \<Rightarrow> bool \<Rightarrow> bool \<times> M4AFile" where
  "m4aFileSetMetadataHandler m4aFile handler = (True, m4aFile\<lparr>metadataHandler := handler\<rparr>)"

subsection \<open>Getters\<close>

datatype fault = DivisionByZero | NullFunctionCall | OutOfFuel

text \<open>
  \<^verbatim>\<open>m4aFileGetLength\<close> divides by the time scale without a check. An integer division by
  zero has no result in C (the process traps): it is the fault \<open>DivisionByZero\<close> here.
  The operands are a \<^verbatim>\<open>uint32_t\<close> quotient and 64-bit \<^verbatim>\<open>long\<close> products below
  \<open>10^9 * 2^32\<close>, so the integer arithmetic is exact.
\<close>

definition m4aFileGetLength :: "M4AFile \<Rightarrow> fault + (bool \<times> timespec)" where
  "m4aFileGetLength m4aFile =
     (if timescale m4aFile = 0 then Inl DivisionByZero
      else
        let sec = uint (duration m4aFile div timescale m4aFile);
            nsec = ONE_SECOND_IN_NANO_SECONDS * (uint (duration m4aFile) - sec * uint (timescale m4aFile))
                     div uint (timescale m4aFile)
        in Inr (True, \<lparr>tv_sec = sec, tv_nsec = nsec\<rparr>))"

definition m4aFileGetTimescale :: "M4AFile \<Rightarrow> uint32_t" where
  "m4aFileGetTimescale m4aFile = timescale m4aFile"

definition m4aFileGetSamplesCount :: "M4AFile \<Rightarrow> uint32_t" where
  "m4aFileGetSamplesCount m4aFile = samplesCount m4aFile"


section \<open>The box parser (m4afile.c)\<close>

subsection \<open>Box type codes and the parser table\<close>

definition ASCII_TO_INT32 :: "char \<Rightarrow> char \<Rightarrow> char \<Rightarrow> char \<Rightarrow> uint32_t" where
  "ASCII_TO_INT32 char1 char2 char3 char4 =
     push_bit 24 (of_char char1) OR push_bit 16 (of_char char2) OR push_bit 8 (of_char char3)
       OR of_char char4"

definition NO_BOXTYPE :: uint32_t where
  "NO_BOXTYPE = ASCII_TO_INT32 CHR ''<'' CHR ''n'' CHR ''o'' CHR ''>''"

definition APPLE_FILE_TYPE :: uint32_t where
  "APPLE_FILE_TYPE = ASCII_TO_INT32 CHR ''M'' CHR ''4'' CHR ''A'' CHR '' ''"

definition ALAC_ENCODING_TYPE :: uint32_t where
  "ALAC_ENCODING_TYPE = ASCII_TO_INT32 CHR ''a'' CHR ''l'' CHR ''a'' CHR ''c''"

definition AAC_ENCODING_TYPE :: uint32_t where
  "AAC_ENCODING_TYPE = ASCII_TO_INT32 CHR ''m'' CHR ''p'' CHR ''4'' CHR ''a''"

definition METADATA_DATA_TYPE :: uint32_t where
  "METADATA_DATA_TYPE = ASCII_TO_INT32 CHR ''d'' CHR ''a'' CHR ''t'' CHR ''a''"

definition METADATA_NAME_TYPE :: uint32_t where
  "METADATA_NAME_TYPE = ASCII_TO_INT32 CHR ''n'' CHR ''a'' CHR ''m'' CHR ''e''"

definition METADATA_MEAN_TYPE :: uint32_t where
  "METADATA_MEAN_TYPE = ASCII_TO_INT32 CHR ''m'' CHR ''e'' CHR ''a'' CHR ''n''"

definition ITUNES_ANNOTATION_TYPE :: uint32_t where
  "ITUNES_ANNOTATION_TYPE = ASCII_TO_INT32 CHR ''-'' CHR ''-'' CHR ''-'' CHR ''-''"

text \<open>The box-specific parsers a table entry can point to.\<close>

datatype MP4BoxParser =
    ParseFileType | ParseContainer | ParseMediaHeader | ParseTrackHeader | BoxSkip
  | ParseSampleDescriptions | ParseSampleDescription | ParseSampleTimes | ParseSampleSizes
  | ParseMetadata | ParseAppleAnnotation | ParseMediaData

text \<open>\<^verbatim>\<open>mp4BoxParserTable\<close>, without its terminating entry \<^verbatim>\<open>{ 0, NULL }\<close>.\<close>

definition mp4BoxParserTable :: "(uint32_t \<times> MP4BoxParser) list" where
  "mp4BoxParserTable =
   [(ASCII_TO_INT32 CHR ''f'' CHR ''t'' CHR ''y'' CHR ''p'', ParseFileType),
    (ASCII_TO_INT32 CHR ''m'' CHR ''o'' CHR ''o'' CHR ''v'', ParseContainer),
    (ASCII_TO_INT32 CHR ''m'' CHR ''v'' CHR ''h'' CHR ''d'', ParseMediaHeader),
    (ASCII_TO_INT32 CHR ''t'' CHR ''r'' CHR ''a'' CHR ''k'', ParseContainer),
    (ASCII_TO_INT32 CHR ''t'' CHR ''k'' CHR ''h'' CHR ''d'', ParseTrackHeader),
    (ASCII_TO_INT32 CHR ''u'' CHR ''d'' CHR ''t'' CHR ''a'', ParseContainer),
    (ASCII_TO_INT32 CHR ''m'' CHR ''d'' CHR ''i'' CHR ''a'', ParseContainer),
    (ASCII_TO_INT32 CHR ''m'' CHR ''d'' CHR ''h'' CHR ''d'', ParseMediaHeader),
    (ASCII_TO_INT32 CHR ''h'' CHR ''d'' CHR ''l'' CHR ''r'', BoxSkip),
    (ASCII_TO_INT32 CHR ''m'' CHR ''i'' CHR ''n'' CHR ''f'', ParseContainer),
    (ASCII_TO_INT32 CHR ''s'' CHR ''m'' CHR ''h'' CHR ''d'', BoxSkip),
    (ASCII_TO_INT32 CHR ''d'' CHR ''i'' CHR ''n'' CHR ''f'', ParseContainer),
    (ASCII_TO_INT32 CHR ''d'' CHR ''r'' CHR ''e'' CHR ''f'', BoxSkip),
    (ASCII_TO_INT32 CHR ''s'' CHR ''t'' CHR ''b'' CHR ''l'', ParseContainer),
    (ASCII_TO_INT32 CHR ''s'' CHR ''t'' CHR ''s'' CHR ''d'', ParseSampleDescriptions),
    (ASCII_TO_INT32 CHR ''a'' CHR ''l'' CHR ''a'' CHR ''c'', ParseSampleDescription),
    (ASCII_TO_INT32 CHR ''m'' CHR ''p'' CHR ''4'' CHR ''a'', ParseSampleDescription),
    (ASCII_TO_INT32 CHR ''s'' CHR ''t'' CHR ''t'' CHR ''s'', ParseSampleTimes),
    (ASCII_TO_INT32 CHR ''s'' CHR ''t'' CHR ''s'' CHR ''c'', BoxSkip),
    (ASCII_TO_INT32 CHR ''s'' CHR ''t'' CHR ''s'' CHR ''z'', ParseSampleSizes),
    (ASCII_TO_INT32 CHR ''s'' CHR ''t'' CHR ''c'' CHR ''o'', BoxSkip),
    (ASCII_TO_INT32 CHR ''m'' CHR ''e'' CHR ''t'' CHR ''a'', ParseMetadata),
    (ASCII_TO_INT32 CHR ''i'' CHR ''l'' CHR ''s'' CHR ''t'', ParseContainer),
    (ITUNES_ANNOTATION_TYPE, ParseAppleAnnotation),
    (ASCII_TO_INT32 CHR ''f'' CHR ''r'' CHR ''e'' CHR ''e'', BoxSkip),
    (ASCII_TO_INT32 CHR ''m'' CHR ''d'' CHR ''a'' CHR ''t'', ParseMediaData),
    (ASCII_TO_INT32 CHR 0xA9 CHR ''n'' CHR ''a'' CHR ''m'', ParseAppleAnnotation),
    (ASCII_TO_INT32 CHR 0xA9 CHR ''A'' CHR ''R'' CHR ''T'', ParseAppleAnnotation),
    (ASCII_TO_INT32 CHR ''a'' CHR ''A'' CHR ''R'' CHR ''T'', ParseAppleAnnotation),
    (ASCII_TO_INT32 CHR 0xA9 CHR ''a'' CHR ''l'' CHR ''b'', ParseAppleAnnotation),
    (ASCII_TO_INT32 CHR 0xA9 CHR ''g'' CHR ''r'' CHR ''p'', ParseAppleAnnotation),
    (ASCII_TO_INT32 CHR 0xA9 CHR ''w'' CHR ''r'' CHR ''t'', ParseAppleAnnotation),
    (ASCII_TO_INT32 CHR 0xA9 CHR ''c'' CHR ''m'' CHR ''t'', ParseAppleAnnotation),
    (ASCII_TO_INT32 CHR ''g'' CHR ''n'' CHR ''r'' CHR ''e'', ParseAppleAnnotation),
    (ASCII_TO_INT32 CHR 0xA9 CHR ''g'' CHR ''e'' CHR ''n'', ParseAppleAnnotation),
    (ASCII_TO_INT32 CHR 0xA9 CHR ''d'' CHR ''a'' CHR ''y'', ParseAppleAnnotation),
    (ASCII_TO_INT32 CHR ''t'' CHR ''r'' CHR ''k'' CHR ''n'', ParseAppleAnnotation),
    (ASCII_TO_INT32 CHR ''d'' CHR ''i'' CHR ''s'' CHR ''k'', ParseAppleAnnotation),
    (ASCII_TO_INT32 CHR ''t'' CHR ''m'' CHR ''p'' CHR ''o'', ParseAppleAnnotation),
    (ASCII_TO_INT32 CHR ''c'' CHR ''p'' CHR ''i'' CHR ''l'', ParseAppleAnnotation),
    (ASCII_TO_INT32 CHR ''d'' CHR ''e'' CHR ''s'' CHR ''c'', ParseAppleAnnotation),
    (ASCII_TO_INT32 CHR ''l'' CHR ''d'' CHR ''e'' CHR ''s'', ParseAppleAnnotation),
    (ASCII_TO_INT32 CHR 0xA9 CHR ''l'' CHR ''y'' CHR ''r'', ParseAppleAnnotation),
    (ASCII_TO_INT32 CHR ''s'' CHR ''o'' CHR ''n'' CHR ''m'', ParseAppleAnnotation),
    (ASCII_TO_INT32 CHR ''s'' CHR ''o'' CHR ''a'' CHR ''r'', ParseAppleAnnotation),
    (ASCII_TO_INT32 CHR ''s'' CHR ''o'' CHR ''a'' CHR ''a'', ParseAppleAnnotation),
    (ASCII_TO_INT32 CHR ''s'' CHR ''o'' CHR ''a'' CHR ''l'', ParseAppleAnnotation),
    (ASCII_TO_INT32 CHR ''s'' CHR ''o'' CHR ''c'' CHR ''o'', ParseAppleAnnotation),
    (ASCII_TO_INT32 CHR ''s'' CHR ''o'' CHR ''s'' CHR ''n'', ParseAppleAnnotation),
    (ASCII_TO_INT32 CHR ''c'' CHR ''o'' CHR ''v'' CHR ''r'', ParseAppleAnnotation),
    (ASCII_TO_INT32 CHR ''c'' CHR ''p'' CHR ''r'' CHR ''t'', ParseAppleAnnotation),
    (ASCII_TO_INT32 CHR 0xA9 CHR ''t'' CHR ''o'' CHR ''o'', ParseAppleAnnotation),
    (ASCII_TO_INT32 CHR 0xA9 CHR ''e'' CHR ''n'' CHR ''c'', ParseAppleAnnotation),
    (ASCII_TO_INT32 CHR ''p'' CHR ''u'' CHR ''r'' CHR ''d'', ParseAppleAnnotation),
    (ASCII_TO_INT32 CHR ''p'' CHR ''c'' CHR ''s'' CHR ''t'', ParseAppleAnnotation),
    (ASCII_TO_INT32 CHR ''p'' CHR ''u'' CHR ''r'' CHR ''l'', ParseAppleAnnotation),
    (ASCII_TO_INT32 CHR ''k'' CHR ''e'' CHR ''y'' CHR ''w'', ParseAppleAnnotation),
    (ASCII_TO_INT32 CHR ''c'' CHR ''a'' CHR ''t'' CHR ''g'', ParseAppleAnnotation),
    (ASCII_TO_INT32 CHR ''s'' CHR ''t'' CHR ''i'' CHR ''k'', ParseAppleAnnotation),
    (ASCII_TO_INT32 CHR ''r'' CHR ''t'' CHR ''n'' CHR ''g'', ParseAppleAnnotation),
    (ASCII_TO_INT32 CHR ''p'' CHR ''g'' CHR ''a'' CHR ''p'', ParseAppleAnnotation),
    (ASCII_TO_INT32 CHR ''a'' CHR ''p'' CHR ''I'' CHR ''D'', ParseAppleAnnotation),
    (ASCII_TO_INT32 CHR ''a'' CHR ''k'' CHR ''I'' CHR ''D'', ParseAppleAnnotation),
    (ASCII_TO_INT32 CHR ''c'' CHR ''n'' CHR ''I'' CHR ''D'', ParseAppleAnnotation),
    (ASCII_TO_INT32 CHR ''s'' CHR ''f'' CHR ''I'' CHR ''D'', ParseAppleAnnotation),
    (ASCII_TO_INT32 CHR ''a'' CHR ''t'' CHR ''I'' CHR ''D'', ParseAppleAnnotation),
    (ASCII_TO_INT32 CHR ''p'' CHR ''l'' CHR ''I'' CHR ''D'', ParseAppleAnnotation),
    (ASCII_TO_INT32 CHR ''g'' CHR ''e'' CHR ''I'' CHR ''D'', ParseAppleAnnotation),
    (ASCII_TO_INT32 CHR 0xA9 CHR ''s'' CHR ''t'' CHR ''3'', ParseAppleAnnotation)]"

text \<open>
  The sequential search of \<^verbatim>\<open>mp4BoxParse\<close>: the first entry whose type is the box type.
  \<open>None\<close> means the search stopped at the terminating entry.
\<close>

fun findBoxParser :: "(uint32_t \<times> MP4BoxParser) list \<Rightarrow> uint32_t \<Rightarrow> MP4BoxParser option" where
  "findBoxParser [] boxType = None"
| "findBoxParser ((type, boxParser) # table) boxType =
     (if type = boxType then Some boxParser else findBoxParser table boxType)"

subsection \<open>Reading and skipping\<close>

text \<open>The reading functions return \<open>None\<close> (or \<open>False\<close>) where the source returns \<^verbatim>\<open>false\<close>.\<close>

definition m4aFileReadUnsignedLong :: "M4AFile \<Rightarrow> uint32_t option \<times> M4AFile" where
  "m4aFileReadUnsignedLong m4aFile =
     (let (v, stream) = read4ByteUnsignedInt32 (fileBytes m4aFile) (dataStream m4aFile);
          m = m4aFile\<lparr>dataStream := stream\<rparr>
      in if feof stream then (None, m\<lparr>status := M4AFILE_ERROR\<rparr>) else (Some v, m))"

definition m4aFileReadData :: "M4AFile \<Rightarrow> uint32_t \<Rightarrow> uint8_t list option \<times> M4AFile" where
  "m4aFileReadData m4aFile dataSize =
     (let (data, stream) = fread (fileBytes m4aFile) (unat dataSize) (dataStream m4aFile);
          m = m4aFile\<lparr>dataStream := stream\<rparr>
      in if length data \<noteq> unat dataSize then (None, m\<lparr>status := M4AFILE_ERROR\<rparr>)
         else (Some data, m))"

definition m4aFileSkipBytes :: "M4AFile \<Rightarrow> uint32_t \<Rightarrow> bool \<times> M4AFile" where
  "m4aFileSkipBytes m4aFile byteCount =
     (case fseek_CUR (dataStream m4aFile) (unat byteCount) of
        None \<Rightarrow> (False, m4aFile\<lparr>status := M4AFILE_ERROR\<rparr>)
      | Some stream \<Rightarrow> (True, m4aFile\<lparr>dataStream := stream\<rparr>))"

text \<open>Returns the version and the flags read.\<close>

definition m4aFileCheckVersionAndFlags ::
  "M4AFile \<Rightarrow> uint8_t \<Rightarrow> uint32_t \<Rightarrow> uint32_t \<Rightarrow> (uint8_t \<times> uint32_t) option \<times> M4AFile" where
  "m4aFileCheckVersionAndFlags m4aFile expectedVersion expectedFlagBitsOn expectedFlagBitsOff =
     (case m4aFileReadUnsignedLong m4aFile of
        (None, m1) \<Rightarrow> (None, m1)
      | (Some versionAndFlags, m1) \<Rightarrow>
          let version = (ucast (drop_bit 24 (versionAndFlags AND 0xff000000)) :: uint8_t);
              m2 = (if version \<noteq> expectedVersion
                    then m1\<lparr>status := M4AFILE_PARSED_WITH_WARNINGS\<rparr> else m1);
              flags = versionAndFlags AND 0x00ffffff;
              m3 = (if (flags AND expectedFlagBitsOn) \<noteq> expectedFlagBitsOn
                       \<or> (flags AND expectedFlagBitsOff) \<noteq> 0
                    then m2\<lparr>status := M4AFILE_PARSED_WITH_WARNINGS\<rparr> else m2)
          in (Some (version, flags), m3))"

subsection \<open>Setters used while parsing\<close>

text \<open>
  \<^verbatim>\<open>m4aFileSetTimeValue\<close> through its two callers. A second, different value is not
  stored: only the warning status is set.
\<close>

definition m4aFileSetTimescale :: "M4AFile \<Rightarrow> uint32_t \<Rightarrow> M4AFile" where
  "m4aFileSetTimescale m4aFile timeValue =
     (if timeValue \<noteq> 0 \<and> timeValue \<noteq> 0xffffffff then
        (if timescale m4aFile \<noteq> timeValue then
           (if timescale m4aFile = 0 then m4aFile\<lparr>timescale := timeValue\<rparr>
            else m4aFile\<lparr>status := M4AFILE_PARSED_WITH_WARNINGS\<rparr>)
         else m4aFile)
      else m4aFile)"

definition m4aFileSetDuration :: "M4AFile \<Rightarrow> uint32_t \<Rightarrow> M4AFile" where
  "m4aFileSetDuration m4aFile timeValue =
     (if timeValue \<noteq> 0 \<and> timeValue \<noteq> 0xffffffff then
        (if duration m4aFile \<noteq> timeValue then
           (if duration m4aFile = 0 then m4aFile\<lparr>duration := timeValue\<rparr>
            else m4aFile\<lparr>status := M4AFILE_PARSED_WITH_WARNINGS\<rparr>)
         else m4aFile)
      else m4aFile)"

definition setTotalSampleSize :: "M4AFile \<Rightarrow> uint32_t \<Rightarrow> bool \<times> M4AFile" where
  "setTotalSampleSize m4aFile newTotal =
     (if totalSampleSize m4aFile = 0 then (True, m4aFile\<lparr>totalSampleSize := newTotal\<rparr>)
      else if totalSampleSize m4aFile \<noteq> newTotal then
        (if newTotal < totalSampleSize m4aFile then (True, m4aFile\<lparr>totalSampleSize := newTotal\<rparr>)
         else (True, m4aFile))
      else (True, m4aFile))"

text \<open>\<^verbatim>\<open>m4aFileSetOffsetValue\<close>: the \<^verbatim>\<open>long\<close> of \<^verbatim>\<open>ftell\<close> is stored in a \<^verbatim>\<open>uint32_t\<close>.\<close>

definition m4aFileSetDataOffset :: "M4AFile \<Rightarrow> bool \<times> M4AFile" where
  "m4aFileSetDataOffset m4aFile =
     (True, m4aFile\<lparr>dataOffset := of_nat (ftell (dataStream m4aFile))\<rparr>)"

definition m4aFileSetSizeOffset :: "M4AFile \<Rightarrow> bool \<times> M4AFile" where
  "m4aFileSetSizeOffset m4aFile =
     (True, m4aFile\<lparr>sizeOffset := of_nat (ftell (dataStream m4aFile))\<rparr>)"

definition m4aFileReadDuration :: "M4AFile \<Rightarrow> uint8_t \<Rightarrow> uint32_t option \<times> M4AFile" where
  "m4aFileReadDuration m4aFile boxVersion =
     (case (if boxVersion = 0x01 then
              (case m4aFileReadUnsignedLong m4aFile of
                 (None, m1) \<Rightarrow> (None, m1)
               | (Some v, m1) \<Rightarrow>
                   if v = 0xffffffff then (Some True, m1)
                   else if v \<noteq> 0 then (None, m1)
                   else (Some False, m1))
            else (Some False, m4aFile)) of
        (None, m1) \<Rightarrow> (None, m1)
      | (Some hasUnknownDuration, m1) \<Rightarrow>
          (case m4aFileReadUnsignedLong m1 of
             (None, m2) \<Rightarrow> (None, m2)
           | (Some v, m2) \<Rightarrow>
               if v \<noteq> 0xffffffff \<and> hasUnknownDuration then (None, m2)
               else (Some v, m4aFileSetDuration m2 v)))"

text \<open>
  \<^verbatim>\<open>m4aFileReadMetadataContent\<close>. With a handler registered the payload is read and
  handed to it; without one it is skipped. The allocation of the payload buffer is taken
  to succeed.
\<close>

definition m4aFileReadMetadataContent ::
  "M4AFile \<Rightarrow> uint32_t \<Rightarrow> uint32_t \<Rightarrow> uint32_t \<Rightarrow> uint32_t \<Rightarrow> bool \<times> M4AFile" where
  "m4aFileReadMetadataContent m4aFile annotationBoxType boxType metadataType dataSize =
     (if metadataHandler m4aFile then
        (case m4aFileReadData m4aFile dataSize of
           (None, m1) \<Rightarrow> (False, m1)
         | (Some data, m1) \<Rightarrow>
             (True, m1\<lparr>metadataHandled := metadataHandled m1 @
                [(if annotationBoxType = ITUNES_ANNOTATION_TYPE then boxType else annotationBoxType,
                  data, metadataType)]\<rparr>))
      else m4aFileSkipBytes m4aFile dataSize)"

subsection \<open>Box-specific parsers that do not recurse\<close>

text \<open>Each returns the number of bytes it reports as read, and the descriptor afterwards.\<close>

definition mp4BoxSkip :: "M4AFile \<Rightarrow> uint32_t \<Rightarrow> uint32_t \<Rightarrow> uint32_t \<times> M4AFile" where
  "mp4BoxSkip m4aFile boxType boxBytesLeft =
     (case m4aFileSkipBytes m4aFile boxBytesLeft of
        (False, m1) \<Rightarrow> (0, m1)
      | (True, m1) \<Rightarrow> (boxBytesLeft, m1))"

definition mp4BoxParseFileType :: "M4AFile \<Rightarrow> uint32_t \<Rightarrow> uint32_t \<Rightarrow> uint32_t \<times> M4AFile" where
  "mp4BoxParseFileType m4aFile boxType boxBytesLeft =
     (case m4aFileReadUnsignedLong m4aFile of
        (None, m1) \<Rightarrow> (0, m1)
      | (Some mainType, m1) \<Rightarrow>
     (case m4aFileReadUnsignedLong m1 of
        (None, m2) \<Rightarrow> (0, m2)
      | (Some mainVersion, m2) \<Rightarrow>
     (let m3 = (if mainType \<noteq> APPLE_FILE_TYPE \<or> mainVersion \<noteq> 0x00000000
                then m2\<lparr>status := M4AFILE_PARSED_WITH_WARNINGS\<rparr> else m2) in
      case m4aFileSkipBytes m3 (boxBytesLeft - 8) of
        (False, m4) \<Rightarrow> (0, m4)
      | (True, m4) \<Rightarrow> (boxBytesLeft, m4))))"

definition mp4BoxParseMediaHeader :: "M4AFile \<Rightarrow> uint32_t \<Rightarrow> uint32_t \<Rightarrow> uint32_t \<times> M4AFile" where
  "mp4BoxParseMediaHeader m4aFile boxType boxBytesLeft =
     (case m4aFileCheckVersionAndFlags m4aFile 0x00 0x00000000 0x00ffffff of
        (None, m1) \<Rightarrow> (0, m1)
      | (Some (boxVersion, boxFlags), m1) \<Rightarrow>
     (if boxBytesLeft < (if boxVersion = 0 then 20 else 32)
      then (0, m1\<lparr>status := M4AFILE_ERROR\<rparr>)
      else
     (case m4aFileSkipBytes m1 (if boxVersion = 0 then 8 else 16) of
        (False, m2) \<Rightarrow> (0, m2)
      | (True, m2) \<Rightarrow>
     (case m4aFileReadUnsignedLong m2 of
        (None, m3) \<Rightarrow> (0, m3)
      | (Some newTimescale, m3) \<Rightarrow>
     (case m4aFileReadDuration (m4aFileSetTimescale m3 newTimescale) boxVersion of
        (None, m4) \<Rightarrow> (0, m4)
      | (Some newDuration, m4) \<Rightarrow>
     (case m4aFileSkipBytes m4 (boxBytesLeft - (if boxVersion = 0 then 20 else 32)) of
        (False, m5) \<Rightarrow> (0, m5)
      | (True, m5) \<Rightarrow> (boxBytesLeft, m5)))))))"

definition mp4BoxParseTrackHeader :: "M4AFile \<Rightarrow> uint32_t \<Rightarrow> uint32_t \<Rightarrow> uint32_t \<times> M4AFile" where
  "mp4BoxParseTrackHeader m4aFile boxType boxBytesLeft =
     (case m4aFileCheckVersionAndFlags m4aFile 0x00 0x00000000 0x00fffff8 of
        (None, m1) \<Rightarrow> (0, m1)
      | (Some (boxVersion, boxFlags), m1) \<Rightarrow>
     (if boxBytesLeft < (if boxVersion = 0 then 28 else 40)
      then (0, m1\<lparr>status := M4AFILE_ERROR\<rparr>)
      else
     (case m4aFileSkipBytes m1 (if boxVersion = 0 then 16 else 24) of
        (False, m2) \<Rightarrow> (0, m2)
      | (True, m2) \<Rightarrow>
     (case m4aFileReadUnsignedLong m2 of
        (None, m3) \<Rightarrow> (0, m3)
      | (Some undocumentedDuration, m3) \<Rightarrow>
     (case m4aFileReadDuration (m4aFileSetDuration m3 undocumentedDuration) boxVersion of
        (None, m4) \<Rightarrow> (0, m4)
      | (Some newDuration, m4) \<Rightarrow>
     (case m4aFileSkipBytes m4 (boxBytesLeft - (if boxVersion = 0 then 28 else 40)) of
        (False, m5) \<Rightarrow> (0, m5)
      | (True, m5) \<Rightarrow> (boxBytesLeft, m5)))))))"

definition mp4BoxParseSampleDescription :: "M4AFile \<Rightarrow> uint32_t \<Rightarrow> uint32_t \<Rightarrow> uint32_t \<times> M4AFile" where
  "mp4BoxParseSampleDescription m4aFile boxType boxBytesLeft =
     (let m1 =
        (if boxType = ALAC_ENCODING_TYPE then
           (if encoding m4aFile \<noteq> ENCODING_UNKNOWN \<and> encoding m4aFile \<noteq> ENCODING_ALAC
            then m4aFile\<lparr>status := M4AFILE_PARSED_WITH_WARNINGS\<rparr>
            else m4aFile\<lparr>encoding := ENCODING_ALAC\<rparr>)
         else if boxType = AAC_ENCODING_TYPE then
           (if encoding m4aFile \<noteq> ENCODING_UNKNOWN \<and> encoding m4aFile \<noteq> ENCODING_AAC
            then m4aFile\<lparr>status := M4AFILE_PARSED_WITH_WARNINGS\<rparr>
            else m4aFile\<lparr>encoding := ENCODING_AAC, status := M4AFILE_PARSED_WITH_WARNINGS\<rparr>)
         else m4aFile)
      in mp4BoxSkip m1 boxType boxBytesLeft)"

text \<open>The \<^verbatim>\<open>for\<close> loop of \<^verbatim>\<open>mp4BoxParseSampleTimes\<close>, with the iterations left to run.\<close>

fun readSampleTimes :: "nat \<Rightarrow> M4AFile \<Rightarrow> uint32_t \<Rightarrow> uint32_t option \<times> M4AFile" where
  "readSampleTimes 0 m4aFile totalDuration = (Some totalDuration, m4aFile)"
| "readSampleTimes (Suc n) m4aFile totalDuration =
     (case m4aFileReadUnsignedLong m4aFile of
        (None, m1) \<Rightarrow> (None, m1)
      | (Some frameCount, m1) \<Rightarrow>
     (case m4aFileReadUnsignedLong m1 of
        (None, m2) \<Rightarrow> (None, m2)
      | (Some sampleDuration, m2) \<Rightarrow>
          readSampleTimes n m2 (totalDuration + frameCount * sampleDuration)))"

definition mp4BoxParseSampleTimes :: "M4AFile \<Rightarrow> uint32_t \<Rightarrow> uint32_t \<Rightarrow> uint32_t \<times> M4AFile" where
  "mp4BoxParseSampleTimes m4aFile boxType boxBytesLeft =
     (case m4aFileCheckVersionAndFlags m4aFile 0x00 0x00000000 0x00ffffff of
        (None, m1) \<Rightarrow> (0, m1)
      | (Some versionAndFlags, m1) \<Rightarrow>
     (case m4aFileReadUnsignedLong m1 of
        (None, m2) \<Rightarrow> (0, m2)
      | (Some numberOfTimings, m2) \<Rightarrow>
     (case readSampleTimes (unat numberOfTimings) m2 0 of
        (None, m3) \<Rightarrow> (0, m3)
      | (Some totalDuration, m3) \<Rightarrow>
          (8 + numberOfTimings * 8, m4aFileSetDuration m3 totalDuration))))"

text \<open>
  The \<^verbatim>\<open>for\<close> loop of \<^verbatim>\<open>mp4BoxParseSampleSizes\<close>: the total and the largest sample
  size read so far.
\<close>

fun readSampleSizes ::
  "nat \<Rightarrow> M4AFile \<Rightarrow> uint32_t \<Rightarrow> uint32_t \<Rightarrow> (uint32_t \<times> uint32_t) option \<times> M4AFile" where
  "readSampleSizes 0 m4aFile sizeSum largest = (Some (sizeSum, largest), m4aFile)"
| "readSampleSizes (Suc n) m4aFile sizeSum largest =
     (case m4aFileReadUnsignedLong m4aFile of
        (None, m1) \<Rightarrow> (None, m1)
      | (Some sampleSize, m1) \<Rightarrow>
          readSampleSizes n m1 (sizeSum + sampleSize)
            (if largest < sampleSize then sampleSize else largest))"

definition mp4BoxParseSampleSizes :: "M4AFile \<Rightarrow> uint32_t \<Rightarrow> uint32_t \<Rightarrow> uint32_t \<times> M4AFile" where
  "mp4BoxParseSampleSizes m4aFile boxType boxBytesLeft =
     (case m4aFileCheckVersionAndFlags m4aFile 0x00 0x00000000 0x00ffffff of
        (None, m1) \<Rightarrow> (0, m1)
      | (Some versionAndFlags, m1) \<Rightarrow>
     (case m4aFileReadUnsignedLong m1 of
        (None, m2) \<Rightarrow> (0, m2)
      | (Some sampleSizeForAll, m2) \<Rightarrow>
     (let m3 = (if sampleSizeForAll \<noteq> 0
                then m2\<lparr>status := M4AFILE_PARSED_WITH_WARNINGS\<rparr> else m2) in
      case m4aFileReadUnsignedLong m3 of
        (None, m4) \<Rightarrow> (0, m4)
      | (Some newSamplesCount, m4) \<Rightarrow>
     (case m4aFileSetSizeOffset (m4\<lparr>samplesCount := newSamplesCount\<rparr>) of
        (False, m5) \<Rightarrow> (0, m5)
      | (True, m5) \<Rightarrow>
     (case readSampleSizes (unat newSamplesCount) m5 0 0 of
        (None, m6) \<Rightarrow> (0, m6)
      | (Some (newTotal, largest), m6) \<Rightarrow>
     (case setTotalSampleSize m6 newTotal of
        (False, m7) \<Rightarrow> (0, m7)
      | (True, m7) \<Rightarrow>
          (12 + newSamplesCount * 4, m7\<lparr>largestSampleSize := largest\<rparr>)))))))"

definition mp4BoxParseMediaData :: "M4AFile \<Rightarrow> uint32_t \<Rightarrow> uint32_t \<Rightarrow> uint32_t \<times> M4AFile" where
  "mp4BoxParseMediaData m4aFile boxType boxBytesLeft =
     (case m4aFileSetDataOffset m4aFile of
        (False, m1) \<Rightarrow> (0, m1)
      | (True, m1) \<Rightarrow>
     (case setTotalSampleSize m1 boxBytesLeft of
        (False, m2) \<Rightarrow> (0, m2)
      | (True, m2) \<Rightarrow> mp4BoxSkip m2 boxType boxBytesLeft))"

definition mp4BoxParseAppleData :: "M4AFile \<Rightarrow> uint32_t \<Rightarrow> uint32_t \<times> M4AFile" where
  "mp4BoxParseAppleData m4aFile annotationBoxType =
     (case m4aFileReadUnsignedLong m4aFile of
        (None, m1) \<Rightarrow> (0, m1)
      | (Some boxSize, m1) \<Rightarrow>
     (case m4aFileReadUnsignedLong m1 of
        (None, m2) \<Rightarrow> (0, m2)
      | (Some boxType, m2) \<Rightarrow>
     (let isDataBox = (boxType = METADATA_DATA_TYPE) in
      case m4aFileCheckVersionAndFlags m2 0x00 0x00000000 0x00ffffe0 of
        (None, m3) \<Rightarrow> (0, m3)
      | (Some (boxVersion, boxFlags), m3) \<Rightarrow>
     (case (if isDataBox then m4aFileSkipBytes m3 4 else (True, m3)) of
        (False, m4) \<Rightarrow> (0, m4)
      | (True, m4) \<Rightarrow>
     (let boxBytesRead = (if isDataBox then 12 + 4 else 12) in
      if boxBytesRead < boxSize then
        (case m4aFileReadMetadataContent m4 annotationBoxType boxType boxFlags
                (boxSize - boxBytesRead) of
           (False, m5) \<Rightarrow> (0, m5)
         | (True, m5) \<Rightarrow> (boxSize, m5))
      else if boxBytesRead > boxSize then
        (boxBytesRead, m4\<lparr>status := M4AFILE_PARSED_WITH_WARNINGS\<rparr>)
      else (boxBytesRead, m4))))))"

subsection \<open>The recursive descent\<close>

text \<open>
  The size check that ends \<^verbatim>\<open>mp4BoxParse\<close>, after the box-specific parser (if any) has
  run: \<open>boxBytesRead\<close> is 8 plus what that parser reported.
\<close>

definition mp4BoxParseSizeCheck ::
  "M4AFile \<Rightarrow> uint32_t \<Rightarrow> uint32_t \<Rightarrow> uint32_t \<times> M4AFile" where
  "mp4BoxParseSizeCheck m4aFile boxSize boxBytesRead =
     (if boxBytesRead < boxSize then
        (case m4aFileSkipBytes (m4aFile\<lparr>status := M4AFILE_PARSED_WITH_WARNINGS\<rparr>)
                (boxSize - boxBytesRead) of
           (False, m1) \<Rightarrow> (0, m1)
         | (True, m1) \<Rightarrow> (boxSize, m1))
      else if boxBytesRead > boxSize then
        (boxBytesRead, m4aFile\<lparr>status := M4AFILE_PARSED_WITH_WARNINGS\<rparr>)
      else (boxBytesRead, m4aFile))"

text \<open>The two generic parsers \<^verbatim>\<open>mp4BoxParseContainerInternal\<close> is called with.\<close>

datatype mp4BoxParserGeneric = GenericBoxParse | GenericAppleData

type_synonym parsed = "fault + (uint32_t \<times> M4AFile)"

text \<open>
  The box-specific parsers that call \<^verbatim>\<open>mp4BoxParseContainerInternal\<close>. They are defined
  before it here, so they take it as their first argument
  (\<open>parseContainerInternal m4aFile boxType boxBytesLeft boxParser\<close>).
\<close>

type_synonym containerParser =
  "M4AFile \<Rightarrow> uint32_t \<Rightarrow> uint32_t \<Rightarrow> mp4BoxParserGeneric \<Rightarrow> parsed"

definition mp4BoxParseContainer ::
  "containerParser \<Rightarrow> M4AFile \<Rightarrow> uint32_t \<Rightarrow> uint32_t \<Rightarrow> parsed" where
  "mp4BoxParseContainer parseContainerInternal m4aFile boxType boxBytesLeft =
     parseContainerInternal m4aFile boxType boxBytesLeft GenericBoxParse"

definition mp4BoxParseAppleAnnotation ::
  "containerParser \<Rightarrow> M4AFile \<Rightarrow> uint32_t \<Rightarrow> uint32_t \<Rightarrow> parsed" where
  "mp4BoxParseAppleAnnotation parseContainerInternal m4aFile boxType boxBytesLeft =
     parseContainerInternal m4aFile boxType boxBytesLeft GenericAppleData"

definition mp4BoxParseSampleDescriptions ::
  "containerParser \<Rightarrow> M4AFile \<Rightarrow> uint32_t \<Rightarrow> uint32_t \<Rightarrow> parsed" where
  "mp4BoxParseSampleDescriptions parseContainerInternal m4aFile boxType boxBytesLeft =
     (case m4aFileCheckVersionAndFlags m4aFile 0x00 0x00000000 0x00ffffff of
        (None, m1) \<Rightarrow> Inr (0, m1)
      | (Some versionAndFlags, m1) \<Rightarrow>
     (case m4aFileSkipBytes m1 4 of
        (False, m2) \<Rightarrow> Inr (0, m2)
      | (True, m2) \<Rightarrow>
     (case parseContainerInternal m2 boxType (boxBytesLeft - 8) GenericBoxParse of
        Inl f \<Rightarrow> Inl f
      | Inr (containerSize, m3) \<Rightarrow> Inr (8 + containerSize, m3))))"

definition mp4BoxParseMetadata ::
  "containerParser \<Rightarrow> M4AFile \<Rightarrow> uint32_t \<Rightarrow> uint32_t \<Rightarrow> parsed" where
  "mp4BoxParseMetadata parseContainerInternal m4aFile boxType boxBytesLeft =
     (case m4aFileCheckVersionAndFlags m4aFile 0x00 0x00000000 0x00ffffff of
        (None, m1) \<Rightarrow> Inr (0, m1)
      | (Some versionAndFlags, m1) \<Rightarrow>
     (case parseContainerInternal m1 boxType (boxBytesLeft - 4) GenericBoxParse of
        Inl f \<Rightarrow> Inl f
      | Inr (containerSize, m2) \<Rightarrow> Inr (4 + containerSize, m2)))"

text \<open>The call \<^verbatim>\<open>mp4BoxParserTable[index].boxParser(m4aFile, boxType, boxBytesLeft)\<close>.\<close>

definition callBoxParser ::
  "containerParser \<Rightarrow> MP4BoxParser \<Rightarrow> M4AFile \<Rightarrow> uint32_t \<Rightarrow> uint32_t \<Rightarrow> parsed" where
  "callBoxParser parseContainerInternal boxParser m4aFile boxType boxBytesLeft =
     (case boxParser of
        ParseFileType \<Rightarrow> Inr (mp4BoxParseFileType m4aFile boxType boxBytesLeft)
      | ParseContainer \<Rightarrow>
          mp4BoxParseContainer parseContainerInternal m4aFile boxType boxBytesLeft
      | ParseMediaHeader \<Rightarrow> Inr (mp4BoxParseMediaHeader m4aFile boxType boxBytesLeft)
      | ParseTrackHeader \<Rightarrow> Inr (mp4BoxParseTrackHeader m4aFile boxType boxBytesLeft)
      | BoxSkip \<Rightarrow> Inr (mp4BoxSkip m4aFile boxType boxBytesLeft)
      | ParseSampleDescriptions \<Rightarrow>
          mp4BoxParseSampleDescriptions parseContainerInternal m4aFile boxType boxBytesLeft
      | ParseSampleDescription \<Rightarrow>
          Inr (mp4BoxParseSampleDescription m4aFile boxType boxBytesLeft)
      | ParseSampleTimes \<Rightarrow> Inr (mp4BoxParseSampleTimes m4aFile boxType boxBytesLeft)
      | ParseSampleSizes \<Rightarrow> Inr (mp4BoxParseSampleSizes m4aFile boxType boxBytesLeft)
      | ParseMetadata \<Rightarrow>
          mp4BoxParseMetadata parseContainerInternal m4aFile boxType boxBytesLeft
      | ParseAppleAnnotation \<Rightarrow>
          mp4BoxParseAppleAnnotation parseContainerInternal m4aFile boxType boxBytesLeft
      | ParseMediaData \<Rightarrow> Inr (mp4BoxParseMediaData m4aFile boxType boxBytesLeft))"

text \<open>
  \<^verbatim>\<open>mp4BoxParse\<close> and the loop of \<^verbatim>\<open>mp4BoxParseContainerInternal\<close> call each other, and
  the loop need not end: at the end of the file \<^verbatim>\<open>mp4BoxParse\<close> returns 0 with the status
  reset to \<^verbatim>\<open>M4AFILE_OK\<close>. Both functions therefore take fuel, one unit per call, and
  return the fault \<open>OutOfFuel\<close> when it is used up. A box of type 0 stops the table search
  at the terminating entry, whose parser is \<^verbatim>\<open>NULL\<close>: calling it is the fault
  \<open>NullFunctionCall\<close>. \<open>containerSize\<close> is the loop variable of
  \<^verbatim>\<open>mp4BoxParseContainerInternal\<close>, 0 at its start.
\<close>

fun mp4BoxParse :: "nat \<Rightarrow> M4AFile \<Rightarrow> uint32_t \<Rightarrow> parsed"
  and mp4BoxParseContainerLoop ::
    "nat \<Rightarrow> M4AFile \<Rightarrow> uint32_t \<Rightarrow> uint32_t \<Rightarrow> mp4BoxParserGeneric \<Rightarrow> uint32_t \<Rightarrow> parsed"
where
  "mp4BoxParse 0 m4aFile containerBoxType = Inl OutOfFuel"
| "mp4BoxParse (Suc fuel) m4aFile containerBoxType =
     (case m4aFileReadUnsignedLong m4aFile of
        (None, m1) \<Rightarrow>
          Inr (0, if feof (dataStream m1) then m1\<lparr>status := M4AFILE_OK\<rparr> else m1)
      | (Some boxSize, m1) \<Rightarrow>
     (case m4aFileReadUnsignedLong m1 of
        (None, m2) \<Rightarrow> Inr (0, m2)
      | (Some boxType, m2) \<Rightarrow>
     (case findBoxParser mp4BoxParserTable boxType of
        None \<Rightarrow>
          if boxType = 0 then Inl NullFunctionCall
          else Inr (mp4BoxParseSizeCheck m2 boxSize 8)
      | Some boxParser \<Rightarrow>
          (case callBoxParser
                  (\<lambda>m t left generic. mp4BoxParseContainerLoop fuel m t left generic 0)
                  boxParser m2 boxType (boxSize - 8) of
             Inl f \<Rightarrow> Inl f
           | Inr (parsed, m3) \<Rightarrow> Inr (mp4BoxParseSizeCheck m3 boxSize (8 + parsed))))))"
| "mp4BoxParseContainerLoop 0 m4aFile boxType boxBytesLeft boxParser containerSize =
     Inl OutOfFuel"
| "mp4BoxParseContainerLoop (Suc fuel) m4aFile boxType boxBytesLeft boxParser containerSize =
     (if status m4aFile \<noteq> M4AFILE_ERROR \<and> containerSize < boxBytesLeft then
        (case (case boxParser of
                 GenericBoxParse \<Rightarrow> mp4BoxParse fuel m4aFile boxType
               | GenericAppleData \<Rightarrow> Inr (mp4BoxParseAppleData m4aFile boxType)) of
           Inl f \<Rightarrow> Inl f
         | Inr (parsed, m1) \<Rightarrow>
             mp4BoxParseContainerLoop fuel m1 boxType boxBytesLeft boxParser
               (containerSize + parsed))
      else
        Inr (containerSize,
             if status m4aFile \<noteq> M4AFILE_ERROR \<and> containerSize > boxBytesLeft
             then m4aFile\<lparr>status := M4AFILE_PARSED_WITH_WARNINGS\<rparr> else m4aFile))"

definition mp4BoxParseContainerInternal :: "nat \<Rightarrow> containerParser" where
  "mp4BoxParseContainerInternal fuel m4aFile boxType boxBytesLeft boxParser =
     mp4BoxParseContainerLoop fuel m4aFile boxType boxBytesLeft boxParser 0"

text \<open>The loop of \<^verbatim>\<open>m4aFileParse\<close>, and \<^verbatim>\<open>m4aFileParse\<close>: the result and the descriptor.\<close>

fun m4aFileParseBoxes :: "nat \<Rightarrow> M4AFile \<Rightarrow> fault + M4AFile" where
  "m4aFileParseBoxes 0 m4aFile = Inl OutOfFuel"
| "m4aFileParseBoxes (Suc fuel) m4aFile =
     (if status m4aFile \<noteq> M4AFILE_ERROR then
        (case mp4BoxParse (Suc fuel) m4aFile NO_BOXTYPE of
           Inl f \<Rightarrow> Inl f
         | Inr (parsed, m1) \<Rightarrow> if parsed > 0 then m4aFileParseBoxes fuel m1 else Inr m1)
      else Inr m4aFile)"

definition m4aFileParse :: "nat \<Rightarrow> M4AFile \<Rightarrow> fault + (bool \<times> M4AFile)" where
  "m4aFileParse fuel m4aFile =
     (case m4aFileParseBoxes fuel m4aFile of
        Inl f \<Rightarrow> Inl f
      | Inr m1 \<Rightarrow>
          Inr (status m1 \<noteq> M4AFILE_ERROR,
               if status m1 \<noteq> M4AFILE_ERROR then
                 (let m2 = (case fseek_SET (dataStream m1) (unat (dataOffset m1)) of
                              None \<Rightarrow> m1 | Some stream \<Rightarrow> m1\<lparr>dataStream := stream\<rparr>)
                  in case fseek_SET (sizeStream m2) (unat (sizeOffset m2)) of
                       None \<Rightarrow> m2 | Some stream \<Rightarrow> m2\<lparr>sizeStream := stream\<rparr>)
               else m1))"

definition m4aFileHasParsedWithWarnings :: "M4AFile \<Rightarrow> bool" where
  "m4aFileHasParsedWithWarnings m4aFile = (status m4aFile = M4AFILE_PARSED_WITH_WARNINGS)"

definition m4aFileGetEncoding :: "M4AFile \<Rightarrow> M4AFileEncoding" where
  "m4aFileGetEncoding m4aFile = encoding m4aFile"

section \<open>Sample access (m4afile.c)\<close>

text \<open>
  Division of \<^verbatim>\<open>long\<close> values by a positive divisor: C truncates towards zero.
\<close>

definition divTowardsZero :: "int \<Rightarrow> int \<Rightarrow> int" where
  "divTowardsZero a b = (if a < 0 then - ((- a) div b) else a div b)"

text \<open>The \<^verbatim>\<open>while\<close> loop of \<^verbatim>\<open>m4aFileSetSampleOffset\<close>, with the value of \<open>sampleOffset\<close>.\<close>

fun skipSamples :: "nat \<Rightarrow> M4AFile \<Rightarrow> bool \<times> M4AFile" where
  "skipSamples 0 m4aFile = (True, m4aFile)"
| "skipSamples (Suc sampleOffset) m4aFile =
     (let (sampleSize, stream) = read4ByteUnsignedInt32 (fileBytes m4aFile) (sizeStream m4aFile);
          m1 = m4aFile\<lparr>sizeStream := stream\<rparr>
      in if didReadErrorOccur stream then (False, m1)
         else (case fseek_CUR (dataStream m1) (unat sampleSize) of
                 None \<Rightarrow> (False, m1)
               | Some stream' \<Rightarrow> skipSamples sampleOffset (m1\<lparr>dataStream := stream'\<rparr>)))"

text \<open>
  \<^verbatim>\<open>m4aFileSetSampleOffset\<close>. The product \<^verbatim>\<open>timescale * tv_sec\<close> and its quotient by 4096
  are computed in \<^verbatim>\<open>long\<close> (exact for the offsets considered below: the product stays
  under \<open>2^63\<close>) and the quotient is then stored in the \<^verbatim>\<open>uint32_t sampleOffset\<close>, which
  keeps its low 32 bits.
\<close>

definition m4aFileSetSampleOffset :: "M4AFile \<Rightarrow> timespec \<Rightarrow> bool \<times> M4AFile" where
  "m4aFileSetSampleOffset m4aFile timeOffset =
     (let sampleOffset =
            (word_of_int (divTowardsZero (uint (timescale m4aFile) * tv_sec timeOffset)
                            DEFAULT_FRAMES_PER_PACKET) :: uint32_t)
      in if sampleOffset \<ge> samplesCount m4aFile then (False, m4aFile)
         else
           (case fseek_SET (sizeStream m4aFile) (unat (sizeOffset m4aFile)) of
              None \<Rightarrow> (False, m4aFile)
            | Some stream \<Rightarrow>
           (case fseek_SET (dataStream m4aFile) (unat (dataOffset m4aFile)) of
              None \<Rightarrow> (False, m4aFile\<lparr>sizeStream := stream\<rparr>)
            | Some stream' \<Rightarrow>
                skipSamples (unat sampleOffset)
                  (m4aFile\<lparr>sizeStream := stream, dataStream := stream'\<rparr>))))"

definition m4aFileGetCurrentSampleIndex :: "M4AFile \<Rightarrow> uint32_t" where
  "m4aFileGetCurrentSampleIndex m4aFile =
     (let offset = (of_nat (ftell (sizeStream m4aFile)) :: uint32_t)
      in (offset - sizeOffset m4aFile) div 4)"


text \<open>
  \<^verbatim>\<open>m4aFileGetNextSample(m4aFile, sampleBuffer, sampleSize)\<close>. The function receives a
  pointer and no length. \<open>sampleBuffer\<close> is the caller's array behind that pointer;
  \<^verbatim>\<open>fread\<close> stores the bytes it reads at its start. Storing more bytes than the array
  holds is undefined in C: it is the fault \<open>BufferOverrun\<close>. The result is the return
  value, the array afterwards, the value stored in \<^verbatim>\<open>*sampleSize\<close> (if any) and the
  descriptor.
\<close>

datatype memoryFault = BufferOverrun | NullPointerDereference

definition m4aFileGetNextSample ::
  "M4AFile \<Rightarrow> uint8_t list \<Rightarrow> memoryFault + (bool \<times> uint8_t list \<times> uint32_t option \<times> M4AFile)" where
  "m4aFileGetNextSample m4aFile sampleBuffer =
     (let (dataSize, stream) = read4ByteUnsignedInt32 (fileBytes m4aFile) (sizeStream m4aFile);
          m1 = m4aFile\<lparr>sizeStream := stream\<rparr>
      in if didReadErrorOccur stream then Inr (False, sampleBuffer, None, m1)
         else
           (let (data, stream') = fread (fileBytes m1) (unat dataSize) (dataStream m1);
                m2 = m1\<lparr>dataStream := stream'\<rparr>
            in if length data > length sampleBuffer then Inl BufferOverrun
               else
                 (let buffer = data @ drop (length data) sampleBuffer
                  in if length data \<noteq> unat dataSize
                     then Inr (False, buffer, None, m2\<lparr>status := M4AFILE_ERROR\<rparr>)
                     else Inr (True, buffer, Some dataSize, m2))))"

section \<open>Network connections (network.c)\<close>

text \<open>
  A connected socket, as far as the program can observe it. \<open>messagesSent\<close> lists the
  buffers handed to \<^verbatim>\<open>send\<close>, in order. What the peer and the kernel do is given in
  advance: \<open>sendResults\<close> tells for each coming call of \<^verbatim>\<open>send\<close> whether it takes the
  whole message (when the list is used up, every call does), and \<open>toReceive\<close> holds what
  the coming reads deliver, \<open>None\<close> for a failing \<^verbatim>\<open>recv\<close>; when it is used up the peer
  has closed the connection. \<open>remoteAddress\<close> is the text \<^verbatim>\<open>inet_ntop\<close> gives for the
  address of the peer.
\<close>

record ('m, 'r) NetworkConnection =
  remoteAddress :: string
  messagesSent :: "'m list"
  sendResults :: "bool list"
  toReceive :: "'r option list"

text \<open>\<^verbatim>\<open>networkSendMessage\<close>; the connection pointer may be \<^verbatim>\<open>NULL\<close> (\<open>None\<close>).\<close>

definition networkSendMessage ::
  "('m, 'r) NetworkConnection option \<Rightarrow> 'm \<Rightarrow> bool \<times> ('m, 'r) NetworkConnection option" where
  "networkSendMessage networkConnection message =
     (case networkConnection of
        None \<Rightarrow> (False, None)
      | Some connection \<Rightarrow>
          (case sendResults connection of
             [] \<Rightarrow> (True, Some (connection\<lparr>messagesSent := messagesSent connection @ [message]\<rparr>))
           | result # results \<Rightarrow>
               (result, Some (connection\<lparr>messagesSent := messagesSent connection @ [message],
                                         sendResults := results\<rparr>))))"

text \<open>
  \<^verbatim>\<open>networkGetRemoteAddressName\<close>: \<^verbatim>\<open>inet_ntop\<close> fails when the text and its NUL do not
  fit in \<open>maxAddressNameSize\<close> bytes.
\<close>

definition networkGetRemoteAddressName :: "('m, 'r) NetworkConnection \<Rightarrow> nat \<Rightarrow> string option" where
  "networkGetRemoteAddressName networkConnection maxAddressNameSize =
     (if maxAddressNameSize \<le> length (remoteAddress networkConnection) then None
      else Some (remoteAddress networkConnection))"

section \<open>RTSP requests (rtsprequest.c)\<close>

datatype RTSPRequestMethod =
    RTSP_METHOD_OPTIONS | RTSP_METHOD_ANNOUNCE | RTSP_METHOD_SETUP | RTSP_METHOD_RECORD
  | RTSP_METHOD_SET_PARAMETER | RTSP_METHOD_FLUSH | RTSP_METHOD_TEARDOWN

fun METHOD_NAMES :: "RTSPRequestMethod \<Rightarrow> string" where
  "METHOD_NAMES RTSP_METHOD_OPTIONS = ''OPTIONS''"
| "METHOD_NAMES RTSP_METHOD_ANNOUNCE = ''ANNOUNCE''"
| "METHOD_NAMES RTSP_METHOD_SETUP = ''SETUP''"
| "METHOD_NAMES RTSP_METHOD_RECORD = ''RECORD''"
| "METHOD_NAMES RTSP_METHOD_SET_PARAMETER = ''SET_PARAMETER''"
| "METHOD_NAMES RTSP_METHOD_FLUSH = ''FLUSH''"
| "METHOD_NAMES RTSP_METHOD_TEARDOWN = ''TEARDOWN''"

text \<open>
  \<^verbatim>\<open>struct RTSPRequestStruct\<close>: the header buffer holds the text of the header fields
  (without the terminating NUL), the content buffer the body. Memory allocation is taken
  to succeed, strings hold no NUL character.
\<close>

record RTSPRequest =
  requestMethod :: RTSPRequestMethod
  headerBuffer :: string
  contentBuffer :: string

definition CRLF :: string where
  "CRLF = [CHR 0x0D, CHR 0x0A]"

definition MAX_ADDR_STRING_LENGTH :: nat where
  "MAX_ADDR_STRING_LENGTH = 46"

definition MAX_URL_STRING_SIZE :: nat where
  "MAX_URL_STRING_SIZE = MAX_ADDR_STRING_LENGTH + 10"

definition MAX_COMMAND_STRING_SIZE :: nat where
  "MAX_COMMAND_STRING_SIZE = 13"

text \<open>\<^verbatim>\<open>printf\<close>'s \<^verbatim>\<open>%u\<close> and \<^verbatim>\<open>%lu\<close>: the decimal digits of a number.\<close>

fun decimal :: "nat \<Rightarrow> string" where
  "decimal n =
     (if n < 10 then [''0123456789'' ! n]
      else decimal (n div 10) @ [''0123456789'' ! (n mod 10)])"

declare decimal.simps [simp del]

definition rtspRequestCreate :: "RTSPRequestMethod \<Rightarrow> RTSPRequest" where
  "rtspRequestCreate method =
     \<lparr>requestMethod = method, headerBuffer = [], contentBuffer = []\<rparr>"

definition rtspRequestReset :: "RTSPRequest \<Rightarrow> RTSPRequestMethod \<Rightarrow> bool \<times> RTSPRequest" where
  "rtspRequestReset rtspRequest method =
     (True, rtspRequest\<lparr>headerBuffer := [], contentBuffer := [], requestMethod := method\<rparr>)"

definition rtspRequestGetMethodName :: "RTSPRequest \<Rightarrow> string" where
  "rtspRequestGetMethodName rtspRequest = METHOD_NAMES (requestMethod rtspRequest)"

definition rtspRequestAddHeaderField :: "RTSPRequest \<Rightarrow> string \<Rightarrow> string \<Rightarrow> bool \<times> RTSPRequest" where
  "rtspRequestAddHeaderField rtspRequest fieldName fieldValue =
     (True, rtspRequest\<lparr>headerBuffer :=
               headerBuffer rtspRequest @ fieldName @ '': '' @ fieldValue @ CRLF\<rparr>)"


text \<open>
  \<^verbatim>\<open>rtspRequestSend\<close>: the request line, the header fields, an empty line and the body,
  sent as one message. \<^verbatim>\<open>snprintf\<close> returns the length of the request line; the request
  is refused when that line is longer than the room reserved for it.
\<close>

definition rtspRequestSend ::
  "RTSPRequest \<Rightarrow> string \<Rightarrow> (string, 'r) NetworkConnection option
     \<Rightarrow> bool \<times> (string, 'r) NetworkConnection option" where
  "rtspRequestSend rtspRequest url networkConnection =
     (let maxRequestBufferSize =
            12 + MAX_COMMAND_STRING_SIZE + MAX_URL_STRING_SIZE
              + length (headerBuffer rtspRequest) + 2 + length (contentBuffer rtspRequest);
          requestLine =
            METHOD_NAMES (requestMethod rtspRequest) @ '' ''
              @ (if requestMethod rtspRequest = RTSP_METHOD_OPTIONS then ''*'' else url)
              @ '' RTSP/1.0'' @ CRLF;
          charsWritten = length requestLine
      in if charsWritten + length (headerBuffer rtspRequest) + 2
              + length (contentBuffer rtspRequest) > maxRequestBufferSize
         then (False, networkConnection)
         else networkSendMessage networkConnection
                (requestLine @ headerBuffer rtspRequest @ CRLF @ contentBuffer rtspRequest))"

section \<open>RTSP responses (rtspresponse.c)\<close>

text \<open>
  A response is represented by what the accessor functions of rtspresponse.c extract from
  its text: the status of the first line, and the values of the header fields
  \<^verbatim>\<open>CSeq\<close>, \<^verbatim>\<open>Session\<close>, \<^verbatim>\<open>Transport\<close> (sub-field \<^verbatim>\<open>server_port\<close>) and
  \<^verbatim>\<open>WWW-Authenticate\<close> (realm and nonce). A field can be absent, present with a value that
  \<^verbatim>\<open>sscanf\<close> cannot read, or present with a value.
\<close>

datatype 'a headerField = FieldAbsent | FieldUnreadable | FieldValue 'a

record RTSPResponse =
  statusLine :: "int option"
  fieldCSeq :: "uint32_t headerField"
  fieldSession :: "uint32_t headerField"
  fieldServerPort :: "int headerField"
  fieldAuthenticate :: "(string \<times> string) option"

text \<open>The response buffer after a read of 0 bytes: nothing can be extracted.\<close>

definition emptyResponse :: RTSPResponse where
  "emptyResponse =
     \<lparr>statusLine = None, fieldCSeq = FieldAbsent, fieldSession = FieldAbsent,
      fieldServerPort = FieldAbsent, fieldAuthenticate = None\<rparr>"

text \<open>
  \<^verbatim>\<open>rtspResponseReceive\<close>: the return value, the response buffer and the connection
  afterwards.
\<close>

definition rtspResponseReceive ::
  "('m, RTSPResponse) NetworkConnection option
     \<Rightarrow> bool \<times> RTSPResponse \<times> ('m, RTSPResponse) NetworkConnection option" where
  "rtspResponseReceive networkConnection =
     (case networkConnection of
        None \<Rightarrow> (False, emptyResponse, None)
      | Some connection \<Rightarrow>
          (case toReceive connection of
             [] \<Rightarrow> (True, emptyResponse, Some connection)
           | None # rest \<Rightarrow> (False, emptyResponse, Some (connection\<lparr>toReceive := rest\<rparr>))
           | Some response # rest \<Rightarrow> (True, response, Some (connection\<lparr>toReceive := rest\<rparr>))))"

definition rtspResponseGetStatus :: "RTSPResponse \<Rightarrow> int option" where
  "rtspResponseGetStatus rtspResponse = statusLine rtspResponse"

text \<open>
  \<^verbatim>\<open>rtspResponseGetSequenceNumber\<close> returns true without a value when the field is
  absent: \<open>Some None\<close>.
\<close>

definition rtspResponseGetSequenceNumber :: "RTSPResponse \<Rightarrow> uint32_t option option" where
  "rtspResponseGetSequenceNumber rtspResponse =
     (case fieldCSeq rtspResponse of
        FieldAbsent \<Rightarrow> Some None
      | FieldUnreadable \<Rightarrow> None
      | FieldValue v \<Rightarrow> Some (Some v))"

definition rtspResponseGetSession :: "RTSPResponse \<Rightarrow> uint32_t option" where
  "rtspResponseGetSession rtspResponse =
     (case fieldSession rtspResponse of
        FieldAbsent \<Rightarrow> None
      | FieldUnreadable \<Rightarrow> None
      | FieldValue v \<Rightarrow> Some v)"

definition rtspResponseGetServerPort :: "RTSPResponse \<Rightarrow> int option" where
  "rtspResponseGetServerPort rtspResponse =
     (case fieldServerPort rtspResponse of
        FieldAbsent \<Rightarrow> None
      | FieldUnreadable \<Rightarrow> None
      | FieldValue v \<Rightarrow> Some v)"

text \<open>
  \<^verbatim>\<open>rtspResponseGetAuthenticationResponse\<close>: realm and nonce, unless one of them does not
  fit the buffer offered for it.
\<close>

definition rtspResponseGetAuthenticationResponse ::
  "RTSPResponse \<Rightarrow> nat \<Rightarrow> nat \<Rightarrow> (string \<times> string) option" where
  "rtspResponseGetAuthenticationResponse rtspResponse maxRealmBufferSize maxNonceBufferSize =
     (case fieldAuthenticate rtspResponse of
        None \<Rightarrow> None
      | Some (realmValue, nonceValue) \<Rightarrow>
          if maxRealmBufferSize < length realmValue \<or> maxNonceBufferSize < length nonceValue
          then None
          else Some (realmValue, nonceValue))"

section \<open>RTSP client (rtspclient.c)\<close>

definition MAX_REALM_SIZE :: nat where
  "MAX_REALM_SIZE = 20"

definition MAX_NONCE_SIZE :: nat where
  "MAX_NONCE_SIZE = 41"

definition MAX_AUTHENTICATION_BUFFER_SIZE :: nat where
  "MAX_AUTHENTICATION_BUFFER_SIZE = 200"

definition DIGEST_SIZE :: nat where
  "DIGEST_SIZE = 16"

definition RTSP_RESPONSE_NEED_AUTHENTICATION :: int where
  "RTSP_RESPONSE_NEED_AUTHENTICATION = 401"

text \<open>
  \<^verbatim>\<open>struct RTSPClientStruct\<close>. The realm and nonce buffers are kept with their sizes as
  strings. The request and response pointers start as \<^verbatim>\<open>NULL\<close> (\<open>None\<close>).
\<close>

record RTSPClient =
  networkConnection :: "(string, RTSPResponse) NetworkConnection option"
  url :: string
  rtspRequest :: "RTSPRequest option"
  rtspResponse :: "RTSPResponse option"
  sessionId :: uint32_t
  sequenceNumber :: uint32_t
  needAuthentication :: bool
  realm :: string
  nonce :: string

text \<open>
  \<^verbatim>\<open>rtspClientOpenConnection\<close>, from the connection \<^verbatim>\<open>networkOpenConnection\<close> returned.
  \<^verbatim>\<open>strncat\<close> appends at most as many characters as its bound says.
\<close>

definition rtspClientOpenConnection ::
  "(string, RTSPResponse) NetworkConnection option \<Rightarrow> RTSPClient option" where
  "rtspClientOpenConnection connection =
     (case connection of
        None \<Rightarrow> None
      | Some opened \<Rightarrow>
          (case networkGetRemoteAddressName opened MAX_ADDR_STRING_LENGTH of
             None \<Rightarrow> None
           | Some addressName \<Rightarrow>
               (let url1 = ''rtsp://'' @ addressName;
                    url2 = url1 @ take (MAX_URL_STRING_SIZE - length url1 - 1) ''/1''
                in Some \<lparr>networkConnection = Some opened, url = url2,
                          rtspRequest = None, rtspResponse = None,
                          sessionId = 0, sequenceNumber = 0, needAuthentication = False,
                          realm = [], nonce = []\<rparr>)))"

text \<open>
  Adding a header field to the request of the client. The code dereferences the request
  pointer unchecked; \<^verbatim>\<open>rtspClientSendRequest\<close> has created the request before any
  field is added.
\<close>

definition addHeaderFieldToRequest :: "RTSPClient \<Rightarrow> string \<Rightarrow> string \<Rightarrow> bool \<times> RTSPClient" where
  "addHeaderFieldToRequest rtspClient fieldName fieldValue =
     (case rtspRequest rtspClient of
        None \<Rightarrow> (False, rtspClient)
      | Some request \<Rightarrow>
          (case rtspRequestAddHeaderField request fieldName fieldValue of
             (added, request1) \<Rightarrow> (added, rtspClient\<lparr>rtspRequest := Some request1\<rparr>)))"

text \<open>\<^verbatim>\<open>printf\<close>'s \<^verbatim>\<open>%X\<close>.\<close>

fun hexadecimal :: "nat \<Rightarrow> string" where
  "hexadecimal n =
     (if n < 16 then [''0123456789ABCDEF'' ! n]
      else hexadecimal (n div 16) @ [''0123456789ABCDEF'' ! (n mod 16)])"

declare hexadecimal.simps [simp del]

definition rtspClientClientGeneralHeaderFieldsSupplier :: "RTSPClient \<Rightarrow> bool \<times> RTSPClient" where
  "rtspClientClientGeneralHeaderFieldsSupplier rtspClient =
     (let c1 = rtspClient\<lparr>sequenceNumber := sequenceNumber rtspClient + 1\<rparr>;
          sequenceNumberString = decimal (unat (sequenceNumber c1))
      in if length sequenceNumberString < 1 then (False, c1)
         else addHeaderFieldToRequest c1 ''CSeq'' sequenceNumberString)"

definition rtspClientOptionsHeaderFieldsSupplier :: "RTSPClient \<Rightarrow> bool \<times> RTSPClient" where
  "rtspClientOptionsHeaderFieldsSupplier rtspClient =
     rtspClientClientGeneralHeaderFieldsSupplier rtspClient"

definition rtspClientAnnounceHeaderFieldsSupplier :: "RTSPClient \<Rightarrow> bool \<times> RTSPClient" where
  "rtspClientAnnounceHeaderFieldsSupplier rtspClient =
     rtspClientClientGeneralHeaderFieldsSupplier rtspClient"

definition rtspClientSetupHeaderFieldsSupplier :: "RTSPClient \<Rightarrow> bool \<times> RTSPClient" where
  "rtspClientSetupHeaderFieldsSupplier rtspClient =
     (case rtspClientClientGeneralHeaderFieldsSupplier rtspClient of
        (False, c1) \<Rightarrow> (False, c1)
      | (True, c1) \<Rightarrow>
          addHeaderFieldToRequest c1 ''Transport''
            ''RTP/AVP/TCP;unicast;interleaved=0-1;mode=record'')"

definition rtspClientRecordHeaderFieldsSupplier :: "RTSPClient \<Rightarrow> bool \<times> RTSPClient" where
  "rtspClientRecordHeaderFieldsSupplier rtspClient =
     (case rtspClientClientGeneralHeaderFieldsSupplier rtspClient of
        (False, c1) \<Rightarrow> (False, c1)
      | (True, c1) \<Rightarrow>
     (case addHeaderFieldToRequest c1 ''Session'' (hexadecimal (unat (sessionId c1))) of
        (False, c2) \<Rightarrow> (False, c2)
      | (True, c2) \<Rightarrow>
     (case addHeaderFieldToRequest c2 ''Range'' ''npt=0-'' of
        (False, c3) \<Rightarrow> (False, c3)
      | (True, c3) \<Rightarrow> addHeaderFieldToRequest c3 ''RTP-Info'' ''seq=0;rtptime=0'')))"

definition rtspClientSetParameterHeaderFieldsSupplier :: "RTSPClient \<Rightarrow> bool \<times> RTSPClient" where
  "rtspClientSetParameterHeaderFieldsSupplier rtspClient =
     (case rtspClientClientGeneralHeaderFieldsSupplier rtspClient of
        (False, c1) \<Rightarrow> (False, c1)
      | (True, c1) \<Rightarrow> addHeaderFieldToRequest c1 ''Session'' (hexadecimal (unat (sessionId c1))))"

definition rtspClientFlushHeaderFieldsSupplier :: "RTSPClient \<Rightarrow> bool \<times> RTSPClient" where
  "rtspClientFlushHeaderFieldsSupplier rtspClient =
     (case rtspClientClientGeneralHeaderFieldsSupplier rtspClient of
        (False, c1) \<Rightarrow> (False, c1)
      | (True, c1) \<Rightarrow>
     (case addHeaderFieldToRequest c1 ''Session'' (hexadecimal (unat (sessionId c1))) of
        (False, c2) \<Rightarrow> (False, c2)
      | (True, c2) \<Rightarrow> addHeaderFieldToRequest c2 ''RTP-Info'' ''seq=0;rtptime=0''))"

definition rtspClientTeardownHeaderFieldsSupplier :: "RTSPClient \<Rightarrow> bool \<times> RTSPClient" where
  "rtspClientTeardownHeaderFieldsSupplier rtspClient =
     (case rtspClientClientGeneralHeaderFieldsSupplier rtspClient of
        (False, c1) \<Rightarrow> (False, c1)
      | (True, c1) \<Rightarrow> addHeaderFieldToRequest c1 ''Session'' (hexadecimal (unat (sessionId c1))))"

fun headerFieldsSupplierTable :: "RTSPRequestMethod \<Rightarrow> RTSPClient \<Rightarrow> bool \<times> RTSPClient" where
  "headerFieldsSupplierTable RTSP_METHOD_OPTIONS = rtspClientOptionsHeaderFieldsSupplier"
| "headerFieldsSupplierTable RTSP_METHOD_ANNOUNCE = rtspClientAnnounceHeaderFieldsSupplier"
| "headerFieldsSupplierTable RTSP_METHOD_SETUP = rtspClientSetupHeaderFieldsSupplier"
| "headerFieldsSupplierTable RTSP_METHOD_RECORD = rtspClientRecordHeaderFieldsSupplier"
| "headerFieldsSupplierTable RTSP_METHOD_SET_PARAMETER = rtspClientSetParameterHeaderFieldsSupplier"
| "headerFieldsSupplierTable RTSP_METHOD_FLUSH = rtspClientFlushHeaderFieldsSupplier"
| "headerFieldsSupplierTable RTSP_METHOD_TEARDOWN = rtspClientTeardownHeaderFieldsSupplier"

text \<open>
  The digest of \<^verbatim>\<open>MD5_Final\<close> as 32 characters: \<^verbatim>\<open>sprintf\<close> with \<^verbatim>\<open>%02X\<close> for each of
  its 16 bytes, the first byte being the most significant of the 128-bit value.
\<close>

definition digestString :: "128 word \<Rightarrow> string" where
  "digestString digest =
     concat (map (\<lambda>index.
                    let byte = unat (ucast (drop_bit (8 * (DIGEST_SIZE - 1 - index)) digest) :: uint8_t)
                    in [''0123456789ABCDEF'' ! (byte div 16), ''0123456789ABCDEF'' ! (byte mod 16)])
                 [0 ..< DIGEST_SIZE])"

definition doubleQuote :: string where
  "doubleQuote = [CHR 0x22]"

text \<open>
  \<^verbatim>\<open>rtspClientAddAuthenticationFields\<close>. The MD5 implementation (md5/md5.h) is not part of
  the sources; \<open>md5\<close> stands for \<^verbatim>\<open>MD5_Init\<close>, the \<^verbatim>\<open>MD5_Update\<close> calls on the pieces of
  its argument and \<^verbatim>\<open>MD5_Final\<close>. \<^verbatim>\<open>snprintf\<close> keeps the first
  \<open>MAX_AUTHENTICATION_BUFFER_SIZE - 1\<close> characters of the value.
\<close>

definition rtspClientAddAuthenticationFields ::
  "(string \<Rightarrow> 128 word) \<Rightarrow> RTSPClient \<Rightarrow> bool \<times> RTSPClient" where
  "rtspClientAddAuthenticationFields md5 rtspClient =
     (case (if length (realm rtspClient) = 0 \<or> length (nonce rtspClient) = 0
            then (case rtspResponse rtspClient of
                    None \<Rightarrow> None
                  | Some response \<Rightarrow>
                      (case rtspResponseGetAuthenticationResponse response
                              MAX_REALM_SIZE MAX_NONCE_SIZE of
                         None \<Rightarrow> None
                       | Some (realmValue, nonceValue) \<Rightarrow>
                           Some (rtspClient\<lparr>realm := realmValue, nonce := nonceValue\<rparr>)))
            else Some rtspClient) of
        None \<Rightarrow> (False, rtspClient)
      | Some c1 \<Rightarrow>
          (case rtspRequest c1 of
             None \<Rightarrow> (False, c1)
           | Some request \<Rightarrow>
               (let ha1String = digestString (md5 (''iTunes'' @ '':'' @ realm c1 @ '':'' @ ''geheim''));
                    ha2String = digestString (md5 (rtspRequestGetMethodName request @ '':'' @ url c1));
                    responseString =
                      digestString (md5 (ha1String @ '':'' @ nonce c1 @ '':'' @ ha2String));
                    authenticationValue =
                      take (MAX_AUTHENTICATION_BUFFER_SIZE - 1)
                        (''Digest username='' @ doubleQuote @ ''iTunes'' @ doubleQuote
                           @ '', realm='' @ doubleQuote @ realm c1 @ doubleQuote
                           @ '', nonce='' @ doubleQuote @ nonce c1 @ doubleQuote
                           @ '', uri='' @ doubleQuote @ url c1 @ doubleQuote
                           @ '', response='' @ doubleQuote @ take 32 responseString @ doubleQuote)
                in addHeaderFieldToRequest c1 ''Authorization'' authenticationValue)))"

text \<open>
  \<^verbatim>\<open>rtspClientAddHeaderFields\<close>; the result of adding the authentication fields is not
  looked at.
\<close>

definition rtspClientAddHeaderFields ::
  "(string \<Rightarrow> 128 word) \<Rightarrow> RTSPClient \<Rightarrow> RTSPRequestMethod \<Rightarrow> bool \<times> RTSPClient" where
  "rtspClientAddHeaderFields md5 rtspClient method =
     (case headerFieldsSupplierTable method rtspClient of
        (False, c1) \<Rightarrow> (False, c1)
      | (True, c1) \<Rightarrow>
          if needAuthentication c1 \<or> (length (realm c1) > 0 \<and> length (nonce c1) > 0)
          then (True, snd (rtspClientAddAuthenticationFields md5 c1))
          else (True, c1))"

text \<open>
  \<^verbatim>\<open>rtspClientSendRequest\<close>. The content supplier of the RAOP client gets the request and
  returns whether it succeeded, with the request as it left it.
\<close>

type_synonym contentSupplier = "RTSPRequest \<Rightarrow> bool \<times> RTSPRequest"

definition rtspClientSendRequest ::
  "(string \<Rightarrow> 128 word) \<Rightarrow> RTSPClient \<Rightarrow> RTSPRequestMethod \<Rightarrow> contentSupplier option
     \<Rightarrow> bool \<times> RTSPClient" where
  "rtspClientSendRequest md5 rtspClient method raopClientContentSupplier =
     (case (case rtspRequest rtspClient of
              None \<Rightarrow> (True, rtspRequestCreate method)
            | Some request \<Rightarrow> rtspRequestReset request method) of
        (False, request1) \<Rightarrow> (False, rtspClient\<lparr>rtspRequest := Some request1\<rparr>)
      | (True, request1) \<Rightarrow>
     (case rtspClientAddHeaderFields md5 (rtspClient\<lparr>rtspRequest := Some request1\<rparr>) method of
        (False, c1) \<Rightarrow> (False, c1)
      | (True, c1) \<Rightarrow>
     (case (case raopClientContentSupplier of
              None \<Rightarrow> (True, c1)
            | Some supplier \<Rightarrow>
                (case rtspRequest c1 of
                   None \<Rightarrow> (False, c1)
                 | Some request2 \<Rightarrow>
                     (case supplier request2 of
                        (supplied, request3) \<Rightarrow> (supplied, c1\<lparr>rtspRequest := Some request3\<rparr>)))) of
        (False, c2) \<Rightarrow> (False, c2)
      | (True, c2) \<Rightarrow>
     (case rtspRequest c2 of
        None \<Rightarrow> (False, c2)
      | Some request4 \<Rightarrow>
          (case rtspRequestSend request4 (url c2) (networkConnection c2) of
             (sent, connection) \<Rightarrow> (sent, c2\<lparr>networkConnection := connection\<rparr>))))))"

definition rtspClientReceiveResponse :: "RTSPClient \<Rightarrow> bool \<times> RTSPClient" where
  "rtspClientReceiveResponse rtspClient =
     (case rtspResponseReceive (networkConnection rtspClient) of
        (False, response, connection) \<Rightarrow>
          (False, rtspClient\<lparr>rtspResponse := Some response, networkConnection := connection\<rparr>)
      | (True, response, connection) \<Rightarrow>
          (let c1 = rtspClient\<lparr>rtspResponse := Some response, networkConnection := connection\<rparr>
           in case rtspResponseGetStatus response of
                None \<Rightarrow> (False, c1)
              | Some int16Value \<Rightarrow>
                  (let c2 = c1\<lparr>needAuthentication := False\<rparr>
                   in if int16Value \<noteq> 200
                      then (if int16Value > 200 \<and> int16Value < 300 then (True, c2)
                            else if int16Value \<noteq> RTSP_RESPONSE_NEED_AUTHENTICATION
                            then (False, c2)
                            else (True, c2\<lparr>needAuthentication := True\<rparr>))
                      else (True, c2))))"

text \<open>
  \<^verbatim>\<open>rtspClientSendCommand\<close>. The third component of the result is the server port handed
  to \<^verbatim>\<open>raopClientSetAudioPort\<close>, if any. A response without a \<^verbatim>\<open>CSeq\<close> field passes the
  sequence number check, and a differing number only gives a warning.
\<close>

definition rtspClientSendCommand ::
  "(string \<Rightarrow> 128 word) \<Rightarrow> RTSPClient \<Rightarrow> RTSPRequestMethod \<Rightarrow> contentSupplier option
     \<Rightarrow> bool \<times> RTSPClient \<times> int option" where
  "rtspClientSendCommand md5 rtspClient method raopClientContentSupplier =
     (case rtspClientSendRequest md5 rtspClient method raopClientContentSupplier of
        (False, c1) \<Rightarrow> (False, c1, None)
      | (True, c1) \<Rightarrow>
     (case rtspClientReceiveResponse c1 of
        (False, c2) \<Rightarrow> (False, c2, None)
      | (True, c2) \<Rightarrow>
     (case (if needAuthentication c2
            then (case rtspClientSendRequest md5 c2 method raopClientContentSupplier of
                    (False, c3) \<Rightarrow> (False, c3)
                  | (True, c3) \<Rightarrow> rtspClientReceiveResponse c3)
            else (True, c2)) of
        (False, c4) \<Rightarrow> (False, c4, None)
      | (True, c4) \<Rightarrow>
     (case rtspResponse c4 of
        None \<Rightarrow> (False, c4, None)
      | Some response \<Rightarrow>
     (case rtspResponseGetSequenceNumber response of
        None \<Rightarrow> (False, c4, None)
      | Some uint32Value \<Rightarrow>
          if method = RTSP_METHOD_SETUP
          then (case rtspResponseGetSession response of
                  None \<Rightarrow> (False, c4, None)
                | Some session \<Rightarrow>
                    (let c5 = c4\<lparr>sessionId := session\<rparr>
                     in case rtspResponseGetServerPort response of
                          None \<Rightarrow> (False, c5, None)
                        | Some int16Value \<Rightarrow> (True, c5, Some int16Value)))
          else (True, c4, None))))))"

text \<open>
  The words of the protocol description, to compare the client with: the first line of a
  request, and the value of the \<^verbatim>\<open>Authorization\<close> header of RFC 2617 digest
  authentication with the user \<^verbatim>\<open>iTunes\<close> and the password \<^verbatim>\<open>geheim\<close>.
\<close>

definition rtspRequestLine :: "RTSPRequestMethod \<Rightarrow> string \<Rightarrow> string" where
  "rtspRequestLine method target =
     METHOD_NAMES method @ '' '' @ (if method = RTSP_METHOD_OPTIONS then ''*'' else target)
       @ '' RTSP/1.0'' @ CRLF"

definition digestAuthorization ::
  "(string \<Rightarrow> 128 word) \<Rightarrow> string \<Rightarrow> string \<Rightarrow> string \<Rightarrow> string \<Rightarrow> string" where
  "digestAuthorization md5 methodName uri realmValue nonceValue =
     (let HA1 = digestString (md5 (''iTunes'' @ '':'' @ realmValue @ '':'' @ ''geheim''));
          HA2 = digestString (md5 (methodName @ '':'' @ uri));
          resp = digestString (md5 (HA1 @ '':'' @ nonceValue @ '':'' @ HA2))
      in ''Digest username='' @ doubleQuote @ ''iTunes'' @ doubleQuote
           @ '', realm='' @ doubleQuote @ realmValue @ doubleQuote
           @ '', nonce='' @ doubleQuote @ nonceValue @ doubleQuote
           @ '', uri='' @ doubleQuote @ uri @ doubleQuote
           @ '', response='' @ doubleQuote @ resp @ doubleQuote)"


text \<open>
  What the content suppliers of raopclient.c do to a request when they succeed: they add
  header fields behind the ones present and set the content.
\<close>

definition addsContent :: "contentSupplier option \<Rightarrow> bool" where
  "addsContent supplier =
     (case supplier of
        None \<Rightarrow> True
      | Some f \<Rightarrow>
          (\<forall>request. fst (f request)
             \<and> requestMethod (snd (f request)) = requestMethod request
             \<and> take (length (headerBuffer request)) (headerBuffer (snd (f request)))
                 = headerBuffer request))"

section \<open>RAOP client (raopclient.c)\<close>



text \<open>
  \<^verbatim>\<open>struct RAOPClientStruct\<close>, without the thread handle. \<open>volume\<close> is a \<^verbatim>\<open>float\<close>: every
  finite value of that type is a rational number, and the model keeps the number.
\<close>

record RAOPClient =
  hostName :: "string option"
  rtspClient :: "RTSPClient option"
  audioConnection :: "(uint8_t list, unit) NetworkConnection option"
  audioPort :: int
  audioThreadJoinable :: bool
  volume :: rat
  m4aFile :: "M4AFile option"
  isSendingAudio :: bool
  playingTimeOffset :: timespec
  startTime :: timespec






text \<open>
  The volume. The constants of raopclient.c are decimal literals of type \<^verbatim>\<open>double\<close>; the
  comparisons of a \<^verbatim>\<open>float\<close> with them come out as the comparisons with the rational
  numbers written here (no \<^verbatim>\<open>float\<close> lies between 1/100 and the \<^verbatim>\<open>double\<close> nearest to
  it), and the sum \<open>-30.0 + volume\<close> is exact in \<^verbatim>\<open>double\<close> for a \<^verbatim>\<open>float\<close> between 0.01
  and 30. A volume that is not a number (NaN) is not represented.
\<close>

definition VOLUME_MUTED :: rat where
  "VOLUME_MUTED = 0"

definition VOLUME_MIN_VALUE :: rat where
  "VOLUME_MIN_VALUE = 1 / 100"










section \<open>Example files\<close>

text \<open>
  A file that is one version-1 \<^verbatim>\<open>mdhd\<close> box of 40 bytes with time scale 44100; the
  argument is the 64-bit duration field, eight bytes.
\<close>

definition exampleMdhdVersion1 :: "uint8_t list \<Rightarrow> uint8_t list" where
  "exampleMdhdVersion1 durationField =
     [0, 0, 0, 40, 0x6d, 0x64, 0x68, 0x64, 1, 0, 0, 0,
      0, 0, 0, 0, 0, 0, 0, 0, 0, 0, 0, 0, 0, 0, 0, 0,
      0, 0, 0xac, 0x44] @ durationField"

text \<open>
  A version-0 \<^verbatim>\<open>mdhd\<close> box (time scale 4096, duration 20480), an \<^verbatim>\<open>stsz\<close> box with two
  samples of 1 and 4 bytes, and the \<^verbatim>\<open>mdat\<close> box with their 5 bytes.
\<close>

definition exampleTwoSamples :: "uint8_t list" where
  "exampleTwoSamples =
     [0, 0, 0, 28, 0x6d, 0x64, 0x68, 0x64, 0, 0, 0, 0,
      0, 0, 0, 0, 0, 0, 0, 0, 0, 0, 0x10, 0, 0, 0, 0x50, 0,
      0, 0, 0, 28, 0x73, 0x74, 0x73, 0x7a, 0, 0, 0, 0,
      0, 0, 0, 0, 0, 0, 0, 2, 0, 0, 0, 1, 0, 0, 0, 4,
      0, 0, 0, 13, 0x6d, 0x64, 0x61, 0x74, 0xaa, 1, 2, 3, 4]"

text \<open>
  The same \<^verbatim>\<open>mdhd\<close> box followed by an \<^verbatim>\<open>stsz\<close> box that announces five samples in 40
  bytes, of which the file holds the first two sizes only.
\<close>

definition exampleTruncatedSizes :: "uint8_t list" where
  "exampleTruncatedSizes =
     [0, 0, 0, 28, 0x6d, 0x64, 0x68, 0x64, 0, 0, 0, 0,
      0, 0, 0, 0, 0, 0, 0, 0, 0, 0, 0x10, 0, 0, 0, 0x50, 0,
      0, 0, 0, 40, 0x73, 0x74, 0x73, 0x7a, 0, 0, 0, 0,
      0, 0, 0, 0, 0, 0, 0, 5, 0, 0, 0, 1, 0, 0, 0, 1]"

text \<open>The descriptors \<^verbatim>\<open>m4aFileParse\<close> leaves for the last two files (shown below).\<close>

definition exampleTwoSamplesParsed :: M4AFile where
  "exampleTwoSamplesParsed =
     (m4aFileOpen exampleTwoSamples 0 0)
       \<lparr>dataStream := \<lparr>filePosition = 64, eofIndicator = False\<rparr>,
        sizeStream := \<lparr>filePosition = 48, eofIndicator = False\<rparr>,
        dataOffset := 64, sizeOffset := 48, samplesCount := 2, totalSampleSize := 5,
        largestSampleSize := 4, timescale := 4096, duration := 20480\<rparr>"

definition exampleTruncatedSizesParsed :: M4AFile where
  "exampleTruncatedSizesParsed =
     (m4aFileOpen exampleTruncatedSizes 0 0)
       \<lparr>dataStream := \<lparr>filePosition = 4294967295, eofIndicator = False\<rparr>,
        sizeStream := \<lparr>filePosition = 48, eofIndicator = False\<rparr>,
        sizeOffset := 48, samplesCount := 5, timescale := 4096, duration := 20480\<rparr>"




text \<open>
  An RTSP connection to the receiver at 192.168.1.10 on which the server is going to send
  the given responses, and the client \<^verbatim>\<open>rtspClientOpenConnection\<close> makes of it. The
  responses: a challenge (status 401 with realm and nonce) and a plain 200.
\<close>

definition exampleRtspConnection ::
  "RTSPResponse option list \<Rightarrow> (string, RTSPResponse) NetworkConnection" where
  "exampleRtspConnection responses =
     \<lparr>remoteAddress = ''192.168.1.10'', messagesSent = [], sendResults = [],
      toReceive = responses\<rparr>"

definition exampleRtspClient :: "RTSPResponse option list \<Rightarrow> RTSPClient" where
  "exampleRtspClient responses =
     \<lparr>networkConnection = Some (exampleRtspConnection responses),
      url = ''rtsp://192.168.1.10/1'', rtspRequest = None, rtspResponse = None,
      sessionId = 0, sequenceNumber = 0, needAuthentication = False,
      realm = [], nonce = []\<rparr>"

definition exampleChallenge :: "uint32_t \<Rightarrow> RTSPResponse" where
  "exampleChallenge cseq =
     \<lparr>statusLine = Some 401, fieldCSeq = FieldValue cseq, fieldSession = FieldAbsent,
      fieldServerPort = FieldAbsent, fieldAuthenticate = Some (''AppleTV'', ''abcdef'')\<rparr>"


text \<open>
  A receiver reached at an IPv6 address, whose challenge carries a realm of 20 and a nonce
  of 40 characters: the client as opened, after its first \<^verbatim>\<open>OPTIONS\<close> request was
  answered by the challenge, and with the header of the second request under construction
  (\<^verbatim>\<open>rtspClientAddHeaderFields\<close> has called the header supplier and is about to call
  \<^verbatim>\<open>rtspClientAddAuthenticationFields\<close>).
\<close>

definition exampleLongChallenge :: RTSPResponse where
  "exampleLongChallenge =
     \<lparr>statusLine = Some 401, fieldCSeq = FieldValue 1, fieldSession = FieldAbsent,
      fieldServerPort = FieldAbsent,
      fieldAuthenticate =
        Some (''Living Room Speakers'', ''0123456789abcdef0123456789abcdef01234567'')\<rparr>"

definition exampleIPv6Connection ::
  "RTSPResponse option list \<Rightarrow> (string, RTSPResponse) NetworkConnection" where
  "exampleIPv6Connection responses =
     \<lparr>remoteAddress = ''2001:db8:85a3:8d3:1319:8a2e:370:7348'', messagesSent = [],
      sendResults = [], toReceive = responses\<rparr>"

definition exampleIPv6Client :: "RTSPResponse option list \<Rightarrow> RTSPClient" where
  "exampleIPv6Client responses =
     \<lparr>networkConnection = Some (exampleIPv6Connection responses),
      url = ''rtsp://2001:db8:85a3:8d3:1319:8a2e:370:7348/1'',
      rtspRequest = None, rtspResponse = None,
      sessionId = 0, sequenceNumber = 0, needAuthentication = False,
      realm = [], nonce = []\<rparr>"

definition exampleFirstOptions :: string where
  "exampleFirstOptions = ''OPTIONS * RTSP/1.0'' @ CRLF @ ''CSeq: 1'' @ CRLF @ CRLF"

definition exampleChallengedClient :: RTSPClient where
  "exampleChallengedClient =
     (exampleIPv6Client [])
       \<lparr>networkConnection :=
          Some ((exampleIPv6Connection [])\<lparr>messagesSent := [exampleFirstOptions]\<rparr>),
        rtspResponse := Some exampleLongChallenge\<rparr>"

definition exampleRetryingClient :: RTSPClient where
  "exampleRetryingClient =
     exampleChallengedClient
       \<lparr>rtspRequest :=
          Some \<lparr>requestMethod = RTSP_METHOD_OPTIONS,
                headerBuffer = ''CSeq: 2'' @ CRLF, contentBuffer = []\<rparr>,
        sequenceNumber := 2, needAuthentication := True\<rparr>"


section \<open>Properties\<close>

lemma m4aFileGetLength_no_overflow:
  assumes "timescale m4a \<noteq> 0"
  shows "0 \<le> uint (duration m4a) - uint (duration m4a div timescale m4a) * uint (timescale m4a)"
    and "ONE_SECOND_IN_NANO_SECONDS * (uint (duration m4a) - uint (duration m4a div timescale m4a) * uint (timescale m4a)) < 2 ^ 63"
proof -
  let ?d = "uint (duration m4a)" and ?t = "uint (timescale m4a)"
  have q: "uint (duration m4a div timescale m4a) = ?d div ?t"
    by (simp add: uint_div)
  have r: "?d - (?d div ?t) * ?t = ?d mod ?t"
    by (simp add: minus_div_mult_eq_mod)
  have "?t \<noteq> 0" using assms by (simp add: uint_0_iff)
  then have tpos: "0 < ?t" using uint_ge_0 [of "timescale m4a"] by linarith
  have "?d mod ?t < ?t" using tpos by simp
  moreover have "?t < 2 ^ 32" using uint_lt2p [of "timescale m4a"] by simp
  ultimately have b: "?d mod ?t < 2 ^ 32" by linarith
  show "0 \<le> ?d - uint (duration m4a div timescale m4a) * ?t"
    using tpos by (simp add: q r)
  have "ONE_SECOND_IN_NANO_SECONDS * (?d mod ?t) < 1000000000 * 2 ^ 32"
    using b by (simp add: ONE_SECOND_IN_NANO_SECONDS_def)
  also have "\<dots> < (2::int) ^ 63" by simp
  finally show "ONE_SECOND_IN_NANO_SECONDS * (?d - uint (duration m4a div timescale m4a) * ?t) < 2 ^ 63"
    by (simp add: q r)
qed

subsection \<open>Unfolding the model on concrete files\<close>

lemmas stdio_defs = fopen_def feof_def ftell_def LONG_MAX_def fseek_SET_def fseek_CUR_def fgetc_def
  fread_def read4ByteUnsignedInt32_def didReadErrorOccur_def

lemmas parse_defs = m4aFileReadUnsignedLong_def m4aFileReadData_def m4aFileSkipBytes_def
  m4aFileCheckVersionAndFlags_def m4aFileSetTimescale_def m4aFileSetDuration_def
  setTotalSampleSize_def m4aFileSetDataOffset_def m4aFileSetSizeOffset_def m4aFileReadDuration_def
  m4aFileReadMetadataContent_def mp4BoxSkip_def mp4BoxParseFileType_def mp4BoxParseMediaHeader_def
  mp4BoxParseTrackHeader_def mp4BoxParseSampleDescription_def mp4BoxParseSampleTimes_def
  mp4BoxParseSampleSizes_def mp4BoxParseMediaData_def mp4BoxParseAppleData_def
  mp4BoxParseSizeCheck_def mp4BoxParseContainer_def mp4BoxParseAppleAnnotation_def
  mp4BoxParseSampleDescriptions_def mp4BoxParseMetadata_def callBoxParser_def
  mp4BoxParseContainerInternal_def m4aFileParse_def m4aFileOpen_def m4aFileInitialize_def
  mp4BoxParserTable_def ASCII_TO_INT32_def NO_BOXTYPE_def APPLE_FILE_TYPE_def
  ALAC_ENCODING_TYPE_def AAC_ENCODING_TYPE_def METADATA_DATA_TYPE_def METADATA_NAME_TYPE_def
  METADATA_MEAN_TYPE_def ITUNES_ANNOTATION_TYPE_def UNUSED_OFFSET_def

lemmas weak_congs = option.case_cong_weak prod.case_cong_weak sum.case_cong_weak
  MP4BoxParser.case_cong_weak bool.case_cong_weak list.case_cong_weak
  mp4BoxParserGeneric.case_cong_weak let_weak_cong

text \<open>The counted loops, at a numeral.\<close>

lemma readSampleSizes_numeral:
  "readSampleSizes (numeral k) m sizeSum largest =
     (case m4aFileReadUnsignedLong m of
        (None, m1) \<Rightarrow> (None, m1)
      | (Some sampleSize, m1) \<Rightarrow>
          readSampleSizes (pred_numeral k) m1 (sizeSum + sampleSize)
            (if largest < sampleSize then sampleSize else largest))"
  by (simp add: numeral_eq_Suc)

lemma readSampleTimes_numeral:
  "readSampleTimes (numeral k) m totalDuration =
     (case m4aFileReadUnsignedLong m of
        (None, m1) \<Rightarrow> (None, m1)
      | (Some frameCount, m1) \<Rightarrow>
     (case m4aFileReadUnsignedLong m1 of
        (None, m2) \<Rightarrow> (None, m2)
      | (Some sampleDuration, m2) \<Rightarrow>
          readSampleTimes (pred_numeral k) m2 (totalDuration + frameCount * sampleDuration)))"
  by (simp add: numeral_eq_Suc)

lemma skipSamples_numeral:
  "skipSamples (numeral k) m =
     (let (sampleSize, stream) = read4ByteUnsignedInt32 (fileBytes m) (sizeStream m);
          m1 = m\<lparr>sizeStream := stream\<rparr>
      in if didReadErrorOccur stream then (False, m1)
         else (case fseek_CUR (dataStream m1) (unat sampleSize) of
                 None \<Rightarrow> (False, m1)
               | Some stream' \<Rightarrow> skipSamples (pred_numeral k) (m1\<lparr>dataStream := stream'\<rparr>)))"
  by (simp add: numeral_eq_Suc)

lemmas loop_numerals = readSampleSizes_numeral readSampleTimes_numeral skipSamples_numeral

lemma exampleTwoSamples_parse:
  "m4aFileParse (Suc (Suc (Suc (Suc 0)))) (m4aFileOpen exampleTwoSamples 0 0)
     = Inr (True, exampleTwoSamplesParsed)"
  by (simp add: stdio_defs parse_defs loop_numerals exampleTwoSamples_def
      exampleTwoSamplesParsed_def cong: weak_congs)

lemma exampleTruncatedSizes_parse:
  "m4aFileParse (Suc (Suc (Suc 0))) (m4aFileOpen exampleTruncatedSizes 0 0)
     = Inr (True, exampleTruncatedSizesParsed)"
  by (simp add: stdio_defs parse_defs loop_numerals exampleTruncatedSizes_def
      exampleTruncatedSizesParsed_def cong: weak_congs)

subsection \<open>The duration field of a version-1 media header\<close>

lemma m4aFileReadUnsignedLong_Some:
  "m4aFileReadUnsignedLong m = (Some v, m1) \<Longrightarrow>
     m1 = m\<lparr>dataStream := (dataStream m)\<lparr>filePosition := filePosition (dataStream m) + 4\<rparr>\<rparr>"
  by (auto simp: m4aFileReadUnsignedLong_def read4ByteUnsignedInt32_def fgetc_def feof_def Let_def
      split: if_splits prod.splits)

text \<open>
  The slip, in general: when the upper 32 bits are neither 0 nor all ones,
  \<^verbatim>\<open>m4aFileReadDuration\<close> returns false and the status is what it was before the call.
\<close>

lemma m4aFileReadDuration_too_large:
  assumes "m4aFileReadUnsignedLong m = (Some upper, m1)" "upper \<noteq> 0" "upper \<noteq> 0xffffffff"
  shows "m4aFileReadDuration m 0x01 = (None, m1) \<and> status m1 = status m"
  using assms m4aFileReadUnsignedLong_Some [OF assms(1)]
  by (simp add: m4aFileReadDuration_def)

text \<open>
  C3. A version-1 \<^verbatim>\<open>mdhd\<close> box whose 64-bit duration has its upper 32 bits 0 is parsed
  with the lower 32 bits as the duration; upper and lower 32 bits all ones are accepted
  as an unknown duration (none is stored). With any other upper 32 bits the claim expects
  the status \<^verbatim>\<open>M4AFILE_ERROR\<close>; on the file below (upper 32 bits = 1) the parse
  returns true with the status \<^verbatim>\<open>M4AFILE_OK\<close> and no duration.
\<close>

theorem C3_version1_duration:
  "(\<exists>m. m4aFileParse (Suc (Suc 0))
            (m4aFileOpen (exampleMdhdVersion1 [0, 0, 0, 0, 0, 6, 0xba, 0xa8]) c t) = Inr (True, m)
        \<and> status m = M4AFILE_OK \<and> duration m = 441000)
   \<and> (\<exists>m. m4aFileParse (Suc (Suc 0))
            (m4aFileOpen (exampleMdhdVersion1 [0xff, 0xff, 0xff, 0xff, 0xff, 0xff, 0xff, 0xff]) c t)
          = Inr (True, m)
        \<and> status m = M4AFILE_OK \<and> duration m = 0)
   \<and> (\<exists>m. m4aFileParse (Suc (Suc 0))
            (m4aFileOpen (exampleMdhdVersion1 [0, 0, 0, 1, 0, 0, 0, 0]) c t) = Inr (True, m)
        \<and> status m = M4AFILE_OK \<and> duration m = 0)"
  by (simp add: stdio_defs parse_defs exampleMdhdVersion1_def cong: weak_congs)

subsection \<open>Size policing of boxes\<close>








subsection \<open>Reading the next sample\<close>

lemma read4ByteUnsignedInt32_in_range:
  "filePosition s + 4 \<le> length bytes \<Longrightarrow>
     snd (read4ByteUnsignedInt32 bytes s) = s\<lparr>filePosition := filePosition s + 4\<rparr>"
  by (simp add: read4ByteUnsignedInt32_def fgetc_def Let_def split: prod.splits)

lemma unat_uint32_bound: "unat (w :: uint32_t) < 2 ^ 32"
  by (rule order_less_le_trans [OF unsigned_less]) simp


text \<open>
  C2, as the code has it. \<^verbatim>\<open>m4aFileGetNextSample\<close> neither knows the length of the
  buffer nor looks at \<open>largestSampleSize\<close>. Whenever the next entry of the size table and
  the sample it announces lie inside the file, the call returns true for every buffer that
  holds this one sample, with the sample at the start of the buffer and its size in
  \<^verbatim>\<open>*sampleSize\<close>; and for no buffer at all does it return false (a buffer shorter than
  the sample is overrun).
\<close>

theorem C2_m4aFileGetNextSample:
  assumes size_in_file: "filePosition (sizeStream m) + 4 \<le> length (fileBytes m)"
      and no_eof: "\<not> eofIndicator (sizeStream m)"
      and next_size: "read4ByteUnsignedInt32 (fileBytes m) (sizeStream m) = (dataSize, stream)"
      and sample_in_file: "filePosition (dataStream m) + unat dataSize \<le> length (fileBytes m)"
  shows "(unat dataSize \<le> length sampleBuffer \<longrightarrow>
          m4aFileGetNextSample m sampleBuffer =
            Inr (True,
                 take (unat dataSize) (drop (filePosition (dataStream m)) (fileBytes m))
                   @ drop (unat dataSize) sampleBuffer,
                 Some dataSize,
                 m\<lparr>sizeStream := stream,
                   dataStream := (dataStream m)
                     \<lparr>filePosition := filePosition (dataStream m) + unat dataSize\<rparr>\<rparr>))
     \<and> (\<forall>anyBuffer result. m4aFileGetNextSample m anyBuffer \<noteq> Inr (False, result))"
proof -
  have s: "stream = (sizeStream m)\<lparr>filePosition := filePosition (sizeStream m) + 4\<rparr>"
    using read4ByteUnsignedInt32_in_range [OF size_in_file] next_size by simp
  have len: "length (take (unat dataSize) (drop (filePosition (dataStream m)) (fileBytes m)))
      = unat dataSize"
    using sample_in_file by simp
  show ?thesis
    using no_eof len
    by (auto simp: m4aFileGetNextSample_def next_size s didReadErrorOccur_def feof_def
        fread_def Let_def)
qed

text \<open>The theorem on the parsed example file, with a buffer of four bytes.\<close>

theorem C2_m4aFileGetNextSample_witness:
  "m4aFileGetNextSample exampleTwoSamplesParsed [9, 9, 9, 9]
     = Inr (True, [0xaa, 9, 9, 9], Some 1,
            exampleTwoSamplesParsed
              \<lparr>sizeStream := \<lparr>filePosition = 52, eofIndicator = False\<rparr>,
               dataStream := \<lparr>filePosition = 65, eofIndicator = False\<rparr>\<rparr>)
   \<and> m4aFileGetNextSample exampleTwoSamplesParsed [] \<noteq> Inr (False, [], None, exampleTwoSamplesParsed)"
proof -
  have r: "read4ByteUnsignedInt32 (fileBytes exampleTwoSamplesParsed)
             (sizeStream exampleTwoSamplesParsed)
           = (1, \<lparr>filePosition = 52, eofIndicator = False\<rparr>)"
    by (simp add: stdio_defs m4aFileOpen_def m4aFileInitialize_def exampleTwoSamples_def
        exampleTwoSamplesParsed_def cong: weak_congs)
  have "filePosition (sizeStream exampleTwoSamplesParsed) + 4
          \<le> length (fileBytes exampleTwoSamplesParsed)"
       "\<not> eofIndicator (sizeStream exampleTwoSamplesParsed)"
       "filePosition (dataStream exampleTwoSamplesParsed) + unat (1 :: uint32_t)
          \<le> length (fileBytes exampleTwoSamplesParsed)"
    by (simp_all add: m4aFileOpen_def m4aFileInitialize_def exampleTwoSamples_def
        exampleTwoSamplesParsed_def)
  from C2_m4aFileGetNextSample [OF this(1) this(2) r this(3), of "[9, 9, 9, 9]"]
  show ?thesis
    by (simp add: m4aFileOpen_def m4aFileInitialize_def exampleTwoSamples_def
        exampleTwoSamplesParsed_def)
qed

text \<open>
  The claim as stated fails on the parsed example file: its largest sample has 4 bytes,
  the buffer has 2, and the call returns true with the first sample (1 byte).
\<close>

theorem C2_short_buffer_counterexample:
  "m4aFileParse (Suc (Suc (Suc (Suc 0)))) (m4aFileOpen exampleTwoSamples 0 0)
     = Inr (True, exampleTwoSamplesParsed)
   \<and> length [9, 9 :: uint8_t] < unat (largestSampleSize exampleTwoSamplesParsed)
   \<and> m4aFileGetNextSample exampleTwoSamplesParsed [9, 9]
     = Inr (True, [0xaa, 9], Some 1,
            exampleTwoSamplesParsed
              \<lparr>sizeStream := \<lparr>filePosition = 52, eofIndicator = False\<rparr>,
               dataStream := \<lparr>filePosition = 65, eofIndicator = False\<rparr>\<rparr>)"
  by (simp add: exampleTwoSamples_parse)
    (simp add: stdio_defs m4aFileGetNextSample_def m4aFileOpen_def m4aFileInitialize_def
      exampleTwoSamples_def exampleTwoSamplesParsed_def cong: weak_congs)

subsection \<open>Seeking to a time offset\<close>

lemma skipSamples_inside:
  "filePosition (sizeStream m) + 4 * n \<le> length (fileBytes m) \<Longrightarrow>
   \<not> eofIndicator (sizeStream m) \<Longrightarrow>
   filePosition (dataStream m) + n * 2 ^ 32 \<le> LONG_MAX \<Longrightarrow>
   \<exists>m'. skipSamples n m = (True, m')
        \<and> filePosition (sizeStream m') = filePosition (sizeStream m) + 4 * n
        \<and> sizeOffset m' = sizeOffset m"
proof (induction n arbitrary: m)
  case 0
  then show ?case by simp
next
  case (Suc n)
  obtain v s where r: "read4ByteUnsignedInt32 (fileBytes m) (sizeStream m) = (v, s)"
    by force
  have s: "s = (sizeStream m)\<lparr>filePosition := filePosition (sizeStream m) + 4\<rparr>"
    using read4ByteUnsignedInt32_in_range [of "sizeStream m" "fileBytes m"] Suc.prems(1) r by simp
  have v: "unat v < 2 ^ 32" by (rule unat_uint32_bound)
  let ?d = "\<lparr>filePosition = filePosition (dataStream m) + unat v, eofIndicator = False\<rparr>"
  let ?m1 = "m\<lparr>sizeStream := s, dataStream := ?d\<rparr>"
  have seek: "fseek_CUR (dataStream m) (unat v) = Some ?d"
    using Suc.prems(3) v by (simp add: fseek_CUR_def)
  have step: "skipSamples (Suc n) m = skipSamples n ?m1"
    using Suc.prems(2) by (simp add: r s seek didReadErrorOccur_def feof_def)
  have "\<exists>m'. skipSamples n ?m1 = (True, m')
        \<and> filePosition (sizeStream m') = filePosition (sizeStream ?m1) + 4 * n
        \<and> sizeOffset m' = sizeOffset ?m1"
  proof (rule Suc.IH)
    show "filePosition (sizeStream ?m1) + 4 * n \<le> length (fileBytes ?m1)"
      using Suc.prems(1) by (simp add: s)
    show "\<not> eofIndicator (sizeStream ?m1)" using Suc.prems(2) by (simp add: s)
    show "filePosition (dataStream ?m1) + n * 2 ^ 32 \<le> LONG_MAX"
      using Suc.prems(3) v by simp
  qed
  then obtain m' where "skipSamples n ?m1 = (True, m')"
      "filePosition (sizeStream m') = filePosition (sizeStream m) + 4 * Suc n"
      "sizeOffset m' = sizeOffset m"
    by (auto simp: s)
  then show ?case unfolding step by blast
qed

lemma sample_index_after_skipping:
  assumes "unat so + 4 * k < 2 ^ 32"
  shows "((of_nat (unat so + 4 * k) :: uint32_t) - so) div 4 = of_nat k"
proof -
  have k: "4 * k < 2 ^ 32" using assms by simp
  have a: "unat (of_nat (4 * k) :: uint32_t) = 4 * k"
    by (rule of_nat_inverse [OF refl]) (use k in simp)
  have "(of_nat (unat so + 4 * k) :: uint32_t) - so = of_nat (4 * k)"
    by simp
  moreover have "unat ((of_nat (4 * k) :: uint32_t) div 4) = k"
    unfolding unat_div a by simp
  moreover have "unat (of_nat k :: uint32_t) = k"
    by (rule of_nat_inverse [OF refl]) (use k in simp)
  ultimately show ?thesis
    by (simp add: word_unat_eq_iff)
qed

lemma m4aFileSetSampleOffset_seeks:
  "m4aFileSetSampleOffset m t =
     (let so = (word_of_int (divTowardsZero (uint (timescale m) * tv_sec t) DEFAULT_FRAMES_PER_PACKET) :: uint32_t)
      in if samplesCount m \<le> so then (False, m)
         else skipSamples (unat so)
                (m\<lparr>sizeStream := \<lparr>filePosition = unat (sizeOffset m), eofIndicator = False\<rparr>,
                   dataStream := \<lparr>filePosition = unat (dataOffset m), eofIndicator = False\<rparr>\<rparr>))"
proof -
  have "unat (sizeOffset m) \<le> LONG_MAX" "unat (dataOffset m) \<le> LONG_MAX"
    using unat_uint32_bound [of "sizeOffset m"] unat_uint32_bound [of "dataOffset m"]
    by (simp_all add: LONG_MAX_def)
  then show ?thesis
    by (simp add: m4aFileSetSampleOffset_def fseek_SET_def Let_def)
qed


text \<open>
  C5, as the code has it: for a descriptor whose size table lies inside a file of less
  than \<open>2^32\<close> bytes and a time offset of \<open>0\<close> or more seconds. With
  \<open>q = timescale * seconds / 4096\<close>: if \<open>q < samplesCount\<close> the call returns true and
  the current sample index is \<open>q\<close> afterwards; if \<open>samplesCount \<le> q < 2^32\<close> it returns
  false.
\<close>

theorem C5_m4aFileSetSampleOffset:
  assumes inside: "unat (sizeOffset m) + 4 * unat (samplesCount m) \<le> length (fileBytes m)"
      and small: "length (fileBytes m) < 2 ^ 32"
      and nonneg: "0 \<le> tv_sec t"
  shows "(uint (timescale m) * tv_sec t div 4096 < uint (samplesCount m) \<longrightarrow>
            (\<exists>m'. m4aFileSetSampleOffset m t = (True, m')
                \<and> uint (m4aFileGetCurrentSampleIndex m') = uint (timescale m) * tv_sec t div 4096))
       \<and> (uint (samplesCount m) \<le> uint (timescale m) * tv_sec t div 4096
            \<and> uint (timescale m) * tv_sec t div 4096 < 2 ^ 32 \<longrightarrow>
            fst (m4aFileSetSampleOffset m t) = False)"
proof -
  define q where "q = uint (timescale m) * tv_sec t div 4096"
  define so where "so = (word_of_int q :: uint32_t)"
  define m0 where "m0 = m\<lparr>sizeStream := \<lparr>filePosition = unat (sizeOffset m), eofIndicator = False\<rparr>,
                   dataStream := \<lparr>filePosition = unat (dataOffset m), eofIndicator = False\<rparr>\<rparr>"
  have prod: "0 \<le> uint (timescale m) * tv_sec t" using nonneg by simp
  then have q0: "0 \<le> q" unfolding q_def by (simp add: pos_imp_zdiv_nonneg_iff)
  have dz: "divTowardsZero (uint (timescale m) * tv_sec t) DEFAULT_FRAMES_PER_PACKET = q"
    using prod by (simp add: divTowardsZero_def DEFAULT_FRAMES_PER_PACKET_def q_def)
  have run: "m4aFileSetSampleOffset m t =
      (if samplesCount m \<le> so then (False, m) else skipSamples (unat so) m0)"
    unfolding m4aFileSetSampleOffset_seeks dz so_def m0_def Let_def ..
  have uso: "uint so = q" if "q < 2 ^ 32"
    using q0 that unfolding so_def by (simp add: uint_word_of_int)
  have part2: "fst (m4aFileSetSampleOffset m t) = False"
    if "uint (samplesCount m) \<le> q" "q < 2 ^ 32"
  proof -
    have "samplesCount m \<le> so" using uso [OF that(2)] that(1) by (simp add: word_le_def)
    then show ?thesis by (simp add: run)
  qed
  have part1: "\<exists>m'. m4aFileSetSampleOffset m t = (True, m')
                \<and> uint (m4aFileGetCurrentSampleIndex m') = q"
    if lt: "q < uint (samplesCount m)"
  proof -
    have "uint (samplesCount m) < 2 ^ 32" using uint_lt2p [of "samplesCount m"] by simp
    then have q32: "q < 2 ^ 32" using lt by linarith
    have u: "uint so = q" by (rule uso [OF q32])
    have less: "\<not> samplesCount m \<le> so" using u lt by (simp add: word_le_def)
    have un: "unat so = nat q"
      using u uint_nat [of so] by linarith
    have nq: "nat q < unat (samplesCount m)"
      using lt q0 uint_nat [of "samplesCount m"] by linarith
    have run': "m4aFileSetSampleOffset m t = skipSamples (nat q) m0"
      using less by (simp add: run un)
    have in32: "unat (sizeOffset m) + 4 * nat q < 2 ^ 32" using nq inside small by linarith
    then have k30: "nat q < 2 ^ 30" by simp
    have do32: "unat (dataOffset m) < 2 ^ 32" by (rule unat_uint32_bound)
    have "\<exists>m'. skipSamples (nat q) m0 = (True, m')
        \<and> filePosition (sizeStream m') = filePosition (sizeStream m0) + 4 * nat q
        \<and> sizeOffset m' = sizeOffset m0"
    proof (rule skipSamples_inside)
      show "filePosition (sizeStream m0) + 4 * nat q \<le> length (fileBytes m0)"
        using nq inside by (simp add: m0_def)
      show "\<not> eofIndicator (sizeStream m0)" by (simp add: m0_def)
      have "nat q * 2 ^ 32 \<le> 2 ^ 30 * 2 ^ 32" using k30 by simp
      then show "filePosition (dataStream m0) + nat q * 2 ^ 32 \<le> LONG_MAX"
        using do32 by (simp add: LONG_MAX_def m0_def)
    qed
    then obtain m' where m': "skipSamples (nat q) m0 = (True, m')"
        "filePosition (sizeStream m') = unat (sizeOffset m) + 4 * nat q"
        "sizeOffset m' = sizeOffset m"
      by (auto simp: m0_def)
    have "m4aFileGetCurrentSampleIndex m' = of_nat (nat q)"
      using sample_index_after_skipping [OF in32]
      by (simp add: m4aFileGetCurrentSampleIndex_def ftell_def m' Let_def)
    then have "uint (m4aFileGetCurrentSampleIndex m') = q"
      using q0 q32 by (simp add: uint_word_of_int)
    with run' m'(1) show ?thesis by simp
  qed
  from part1 part2 show ?thesis unfolding q_def by blast
qed

theorem C5_m4aFileSetSampleOffset_witness:
  "(\<exists>m'. m4aFileSetSampleOffset exampleTwoSamplesParsed \<lparr>tv_sec = 1, tv_nsec = 0\<rparr> = (True, m')
        \<and> uint (m4aFileGetCurrentSampleIndex m') = 1)
   \<and> fst (m4aFileSetSampleOffset exampleTwoSamplesParsed \<lparr>tv_sec = 2, tv_nsec = 0\<rparr>) = False"
proof -
  have h: "unat (sizeOffset exampleTwoSamplesParsed) + 4 * unat (samplesCount exampleTwoSamplesParsed)
          \<le> length (fileBytes exampleTwoSamplesParsed)"
       "length (fileBytes exampleTwoSamplesParsed) < 2 ^ 32"
    by (simp_all add: m4aFileOpen_def m4aFileInitialize_def exampleTwoSamples_def
        exampleTwoSamplesParsed_def)
  have v: "timescale exampleTwoSamplesParsed = 4096" "samplesCount exampleTwoSamplesParsed = 2"
    by (simp_all add: exampleTwoSamplesParsed_def)
  from C5_m4aFileSetSampleOffset [OF h, of "\<lparr>tv_sec = 1, tv_nsec = 0\<rparr>"]
    C5_m4aFileSetSampleOffset [OF h, of "\<lparr>tv_sec = 2, tv_nsec = 0\<rparr>"]
  show ?thesis by (simp add: v)
qed

text \<open>
  The claim as stated fails on the file whose \<^verbatim>\<open>stsz\<close> box announces five samples and
  holds two sizes: \<^verbatim>\<open>m4aFileParse\<close> returns true, the offset of 3 seconds gives the
  quotient 3, below the sample count 5, and \<^verbatim>\<open>m4aFileSetSampleOffset\<close> returns false at
  the third size, which is not in the file. It also fails where the quotient does not fit
  32 bits: \<open>2^32\<close> seconds on the two-sample file give the quotient \<open>2^32\<close>, stored as 0,
  and the call returns true.
\<close>

theorem C5_set_sample_offset_counterexample:
  "m4aFileParse (Suc (Suc (Suc 0))) (m4aFileOpen exampleTruncatedSizes 0 0)
     = Inr (True, exampleTruncatedSizesParsed)
   \<and> uint (timescale exampleTruncatedSizesParsed) * 3 div 4096
       < uint (samplesCount exampleTruncatedSizesParsed)
   \<and> fst (m4aFileSetSampleOffset exampleTruncatedSizesParsed \<lparr>tv_sec = 3, tv_nsec = 0\<rparr>) = False
   \<and> uint (samplesCount exampleTwoSamplesParsed)
       \<le> uint (timescale exampleTwoSamplesParsed) * 4294967296 div 4096
   \<and> fst (m4aFileSetSampleOffset exampleTwoSamplesParsed \<lparr>tv_sec = 4294967296, tv_nsec = 0\<rparr>)
       = True"
  by (simp add: exampleTruncatedSizes_parse)
    (simp add: stdio_defs loop_numerals m4aFileSetSampleOffset_def divTowardsZero_def
      DEFAULT_FRAMES_PER_PACKET_def m4aFileOpen_def m4aFileInitialize_def
      exampleTruncatedSizes_def exampleTruncatedSizesParsed_def
      exampleTwoSamples_def exampleTwoSamplesParsed_def cong: weak_congs)

subsection \<open>Length of the media\<close>

text \<open>
  C10. \<^verbatim>\<open>m4aFileGetLength\<close> divides the stored duration by the stored time scale with no
  guard. For a descriptor whose time scale is not zero it returns true with
  \<open>tv_sec = duration / timescale\<close> and
  \<open>tv_nsec = (duration - tv_sec * timescale) * 10^9 / timescale\<close>; for a time scale of zero
  the division by zero is reached. Zero is the value \<^verbatim>\<open>m4aFileInitialize\<close> stores, and it
  stays when no \<^verbatim>\<open>mvhd\<close> or \<^verbatim>\<open>mdhd\<close> box sets another.
\<close>

theorem C10_m4aFileGetLength:
  "(timescale m4a \<noteq> 0 \<longrightarrow>
      m4aFileGetLength m4a =
        Inr (True,
             \<lparr>tv_sec = uint (duration m4a) div uint (timescale m4a),
              tv_nsec = (uint (duration m4a)
                           - (uint (duration m4a) div uint (timescale m4a))
                               * uint (timescale m4a))
                        * 10 ^ 9 div uint (timescale m4a)\<rparr>))
   \<and> (timescale m4a = 0 \<longrightarrow> m4aFileGetLength m4a = Inl DivisionByZero)
   \<and> timescale (m4aFileInitialize bytes uninitSamplesCount uninitTotalSampleSize) = 0"
  by (simp add: m4aFileGetLength_def m4aFileInitialize_def ONE_SECOND_IN_NANO_SECONDS_def
      uint_div Let_def mult.commute)

theorem C10_m4aFileGetLength_witness:
  "m4aFileGetLength ((m4aFileInitialize [] 0 0)\<lparr>timescale := 44100, duration := 441000\<rparr>)
     = Inr (True, \<lparr>tv_sec = 10, tv_nsec = 0\<rparr>)
   \<and> m4aFileGetLength ((m4aFileInitialize [] 0 0)\<lparr>timescale := 44100, duration := 66150\<rparr>)
     = Inr (True, \<lparr>tv_sec = 1, tv_nsec = 500000000\<rparr>)
   \<and> m4aFileGetLength (m4aFileInitialize [] 0 0) = Inl DivisionByZero"
  using C10_m4aFileGetLength [of "(m4aFileInitialize [] 0 0)\<lparr>timescale := 44100, duration := 441000\<rparr>"]
    C10_m4aFileGetLength [of "(m4aFileInitialize [] 0 0)\<lparr>timescale := 44100, duration := 66150\<rparr>"]
    C10_m4aFileGetLength [of "m4aFileInitialize [] 0 0" "[]" 0 0]
  by (simp add: m4aFileInitialize_def)


subsection \<open>Audio frames\<close>


















subsection \<open>Requests of a session\<close>

lemma decimal_nonempty: "decimal n \<noteq> []"
  by (subst decimal.simps) simp

lemma rtspClientClientGeneralHeaderFieldsSupplier_adds:
  assumes "rtspRequest c = Some r"
  shows "rtspClientClientGeneralHeaderFieldsSupplier c =
           (True, c\<lparr>sequenceNumber := sequenceNumber c + 1,
                    rtspRequest := Some (r\<lparr>headerBuffer := headerBuffer r @ ''CSeq: ''
                        @ decimal (unat (sequenceNumber c + 1)) @ CRLF\<rparr>)\<rparr>)"
  using assms decimal_nonempty [of "unat (sequenceNumber c + 1)"]
  by (simp add: rtspClientClientGeneralHeaderFieldsSupplier_def addHeaderFieldToRequest_def
      rtspRequestAddHeaderField_def Let_def)

lemma headerFieldsSupplierTable_adds:
  assumes "rtspRequest c = Some r"
      and "headerFieldsSupplierTable method c = (ok, c')"
  shows "ok" and "networkConnection c' = networkConnection c" and "url c' = url c"
    and "sequenceNumber c' = sequenceNumber c + 1"
    and "needAuthentication c' = needAuthentication c"
    and "realm c' = realm c" and "nonce c' = nonce c" and "rtspResponse c' = rtspResponse c"
    and "\<exists>r' ext. rtspRequest c' = Some r' \<and> requestMethod r' = requestMethod r
           \<and> headerBuffer r' = headerBuffer r @ ''CSeq: ''
                 @ decimal (unat (sequenceNumber c + 1)) @ CRLF @ ext"
  using assms(2)
  by (cases "method";
      auto simp: rtspClientClientGeneralHeaderFieldsSupplier_adds [OF assms(1)]
      rtspClientOptionsHeaderFieldsSupplier_def rtspClientAnnounceHeaderFieldsSupplier_def
      rtspClientSetupHeaderFieldsSupplier_def rtspClientRecordHeaderFieldsSupplier_def
      rtspClientSetParameterHeaderFieldsSupplier_def rtspClientFlushHeaderFieldsSupplier_def
      rtspClientTeardownHeaderFieldsSupplier_def addHeaderFieldToRequest_def
      rtspRequestAddHeaderField_def)+

lemma rtspClientAddAuthenticationFields_frame:
  assumes "rtspRequest c = Some r"
      and "rtspClientAddAuthenticationFields md5 c = (ok, c')"
  shows "networkConnection c' = networkConnection c" and "url c' = url c"
    and "sequenceNumber c' = sequenceNumber c"
    and "needAuthentication c' = needAuthentication c"
    and "rtspResponse c' = rtspResponse c"
    and "\<exists>r' ext. rtspRequest c' = Some r' \<and> requestMethod r' = requestMethod r
           \<and> headerBuffer r' = headerBuffer r @ ext"
  using assms
  by (auto simp: rtspClientAddAuthenticationFields_def addHeaderFieldToRequest_def
      rtspRequestAddHeaderField_def Let_def split: if_splits option.splits prod.splits)

lemma rtspClientAddHeaderFields_adds:
  assumes "rtspRequest c = Some r"
      and "rtspClientAddHeaderFields md5 c method = (ok, c')"
  shows "ok" and "networkConnection c' = networkConnection c" and "url c' = url c"
    and "sequenceNumber c' = sequenceNumber c + 1"
    and "needAuthentication c' = needAuthentication c"
    and "rtspResponse c' = rtspResponse c"
    and "\<exists>r' ext. rtspRequest c' = Some r' \<and> requestMethod r' = requestMethod r
           \<and> headerBuffer r' = headerBuffer r @ ''CSeq: ''
                 @ decimal (unat (sequenceNumber c + 1)) @ CRLF @ ext"
proof -
  obtain ok1 c1 where t: "headerFieldsSupplierTable method c = (ok1, c1)"
    by (cases "headerFieldsSupplierTable method c") auto
  note h = headerFieldsSupplierTable_adds [OF assms(1) t]
  from h(9) obtain r1 ext1 where r1: "rtspRequest c1 = Some r1"
      "requestMethod r1 = requestMethod r"
      "headerBuffer r1 = headerBuffer r @ ''CSeq: ''
                 @ decimal (unat (sequenceNumber c + 1)) @ CRLF @ ext1"
    by blast
  obtain ok2 c2 where a: "rtspClientAddAuthenticationFields md5 c1 = (ok2, c2)"
    by (cases "rtspClientAddAuthenticationFields md5 c1") auto
  note f = rtspClientAddAuthenticationFields_frame [OF r1(1) a]
  have c': "ok \<and> (c' = c1 \<or> c' = c2)"
    using assms(2) t h(1) a by (auto simp: rtspClientAddHeaderFields_def split: if_splits)
  then show "ok" by simp
  show "networkConnection c' = networkConnection c" using c' h f by auto
  show "url c' = url c" using c' h f by auto
  show "sequenceNumber c' = sequenceNumber c + 1" using c' h f by auto
  show "needAuthentication c' = needAuthentication c" using c' h f by auto
  show "rtspResponse c' = rtspResponse c" using c' h f by auto
  show "\<exists>r' ext. rtspRequest c' = Some r' \<and> requestMethod r' = requestMethod r
           \<and> headerBuffer r' = headerBuffer r @ ''CSeq: ''
                 @ decimal (unat (sequenceNumber c + 1)) @ CRLF @ ext"
    using c' r1 f(6) by (elim conjE disjE) auto
qed

lemma METHOD_NAMES_length: "length (METHOD_NAMES method) \<le> MAX_COMMAND_STRING_SIZE"
  by (cases "method") (simp_all add: MAX_COMMAND_STRING_SIZE_def)

lemma rtspRequestSend_sends:
  assumes short: "length target \<le> MAX_URL_STRING_SIZE"
      and run: "rtspRequestSend request target (Some nc) = (ok, connection)"
  shows "\<exists>nc'. connection = Some nc'
           \<and> messagesSent nc' = messagesSent nc
                 @ [rtspRequestLine (requestMethod request) target @ headerBuffer request
                      @ CRLF @ contentBuffer request]
           \<and> toReceive nc' = toReceive nc
           \<and> (sendResults nc = [] \<longrightarrow> ok \<and> sendResults nc' = [])"
proof -
  have "length (rtspRequestLine (requestMethod request) target)
      \<le> 12 + MAX_COMMAND_STRING_SIZE + MAX_URL_STRING_SIZE"
    using short METHOD_NAMES_length [of "requestMethod request"]
    by (simp add: rtspRequestLine_def CRLF_def MAX_URL_STRING_SIZE_def)
  then have "networkSendMessage (Some nc)
      (rtspRequestLine (requestMethod request) target @ headerBuffer request
         @ CRLF @ contentBuffer request) = (ok, connection)"
    using run by (simp add: rtspRequestSend_def rtspRequestLine_def Let_def)
  then show ?thesis
    by (auto simp: networkSendMessage_def split: list.splits)
qed

lemma rtspClientSendRequest_sends:
  assumes conn: "networkConnection c = Some nc"
      and short: "length (url c) \<le> MAX_URL_STRING_SIZE"
      and supp: "addsContent supplier"
      and run: "rtspClientSendRequest md5 c method supplier = (ok, c')"
  shows "\<exists>nc' rest. networkConnection c' = Some nc'
           \<and> messagesSent nc' = messagesSent nc
                 @ [rtspRequestLine method (url c) @ ''CSeq: ''
                      @ decimal (unat (sequenceNumber c + 1)) @ CRLF @ rest]
           \<and> toReceive nc' = toReceive nc
           \<and> (sendResults nc = [] \<longrightarrow> ok \<and> sendResults nc' = [])"
    and "sequenceNumber c' = sequenceNumber c + 1"
    and "url c' = url c"
    and "needAuthentication c' = needAuthentication c"
    and "\<forall>f. supplier = Some f \<longrightarrow>
           (\<exists>nc' built. networkConnection c' = Some nc'
              \<and> last (messagesSent nc')
                  = rtspRequestLine method (url c) @ headerBuffer (snd (f built)) @ CRLF
                      @ contentBuffer (snd (f built)))"
proof -
  define request1 where "request1 =
    (case rtspRequest c of None \<Rightarrow> rtspRequestCreate method
     | Some request \<Rightarrow> snd (rtspRequestReset request method))"
  define c0 where "c0 = c\<lparr>rtspRequest := Some request1\<rparr>"
  have fresh: "requestMethod request1 = method" "headerBuffer request1 = []"
    by (simp_all add: request1_def rtspRequestCreate_def rtspRequestReset_def split: option.splits)
  have c0: "rtspRequest c0 = Some request1"
    by (simp add: c0_def)
  obtain ok1 c1 where add: "rtspClientAddHeaderFields md5 c0 method = (ok1, c1)"
    by (cases "rtspClientAddHeaderFields md5 c0 method") auto
  note h = rtspClientAddHeaderFields_adds [OF c0 add]
  from h(7) fresh obtain r1 ext1 where r1: "rtspRequest c1 = Some r1"
      "requestMethod r1 = method"
      "headerBuffer r1 = ''CSeq: '' @ decimal (unat (sequenceNumber c + 1)) @ CRLF @ ext1"
    by (auto simp: c0_def)
  define r2 where "r2 = (case supplier of None \<Rightarrow> r1 | Some f \<Rightarrow> snd (f r1))"
  have r2: "requestMethod r2 = method"
      "\<exists>ext. headerBuffer r2 = ''CSeq: '' @ decimal (unat (sequenceNumber c + 1)) @ CRLF @ ext"
  proof -
    show "requestMethod r2 = method"
      using supp r1(2) by (auto simp: r2_def addsContent_def split: option.splits)
    have "take (length (headerBuffer r1)) (headerBuffer r2) = headerBuffer r1"
      using supp by (auto simp: r2_def addsContent_def split: option.splits)
    then have "headerBuffer r2 = headerBuffer r1 @ drop (length (headerBuffer r1)) (headerBuffer r2)"
      by (metis append_take_drop_id)
    then show "\<exists>ext. headerBuffer r2
        = ''CSeq: '' @ decimal (unat (sequenceNumber c + 1)) @ CRLF @ ext"
      unfolding r1(3) by (metis append.assoc)
  qed
  have supplied: "supplier = Some f \<Longrightarrow> fst (f r1)" for f
    using supp by (simp add: addsContent_def)
  have sent: "rtspRequestSend r2 (url c) (Some nc) = (ok, networkConnection c')
      \<and> sequenceNumber c' = sequenceNumber c + 1 \<and> url c' = url c
      \<and> needAuthentication c' = needAuthentication c"
    using run add h(1) h(2) h(3) h(4) h(5) r1(1) conn supplied
    unfolding rtspClientSendRequest_def request1_def [symmetric]
    by (auto simp: c0_def r2_def request1_def rtspRequestCreate_def rtspRequestReset_def
        split: option.splits prod.splits bool.splits)
  then show "sequenceNumber c' = sequenceNumber c + 1" "url c' = url c"
      "needAuthentication c' = needAuthentication c"
    by simp_all
  from rtspRequestSend_sends [OF short] sent r2
  show "\<exists>nc' rest. networkConnection c' = Some nc'
           \<and> messagesSent nc' = messagesSent nc
                 @ [rtspRequestLine method (url c) @ ''CSeq: ''
                      @ decimal (unat (sequenceNumber c + 1)) @ CRLF @ rest]
           \<and> toReceive nc' = toReceive nc
           \<and> (sendResults nc = [] \<longrightarrow> ok \<and> sendResults nc' = [])"
    by (metis append.assoc)
  from rtspRequestSend_sends [OF short] sent obtain nc' where
    "networkConnection c' = Some nc'"
    "messagesSent nc' = messagesSent nc
       @ [rtspRequestLine (requestMethod r2) (url c) @ headerBuffer r2 @ CRLF @ contentBuffer r2]"
    by blast
  then have "networkConnection c' = Some nc'
      \<and> last (messagesSent nc')
          = rtspRequestLine method (url c) @ headerBuffer (snd (f r1)) @ CRLF
              @ contentBuffer (snd (f r1))"
    if "supplier = Some f" for f
    using that r2(1) by (simp add: r2_def)
  then show "\<forall>f. supplier = Some f \<longrightarrow>
           (\<exists>nc' built. networkConnection c' = Some nc'
              \<and> last (messagesSent nc')
                  = rtspRequestLine method (url c) @ headerBuffer (snd (f built)) @ CRLF
                      @ contentBuffer (snd (f built)))"
    by blast
qed









subsection \<open>The Authorization header\<close>

lemma digestString_length: "length (digestString digest) = 32"
  by (simp add: digestString_def DIGEST_SIZE_def length_concat o_def Let_def sum_list_triv)

lemma digestAuthorization_length:
  "length (digestAuthorization md5 methodName uri realmValue nonceValue)
     = 97 + length realmValue + length nonceValue + length uri"
  by (simp add: digestAuthorization_def Let_def doubleQuote_def digestString_length)

lemma rtspClientAddAuthenticationFields_value:
  assumes request: "rtspRequest c = Some r"
      and run: "rtspClientAddAuthenticationFields md5 c = (True, c')"
  shows "rtspRequest c'
           = Some (r\<lparr>headerBuffer := headerBuffer r @ ''Authorization: ''
                @ take 199 (digestAuthorization md5 (METHOD_NAMES (requestMethod r)) (url c)
                              (realm c') (nonce c'))
                @ CRLF\<rparr>)"
  using assms
  by (auto simp: rtspClientAddAuthenticationFields_def addHeaderFieldToRequest_def
      rtspRequestAddHeaderField_def digestAuthorization_def rtspRequestGetMethodName_def
      MAX_AUTHENTICATION_BUFFER_SIZE_def digestString_length Let_def
      split: if_splits option.splits prod.splits)

lemma decimal_digit: "n < 10 \<Longrightarrow> decimal n = [''0123456789'' ! n]"
  by (subst decimal.simps) simp

lemma exampleIPv6Client_opened:
  "rtspClientOpenConnection (Some (exampleIPv6Connection responses))
     = Some (exampleIPv6Client responses)"
  by (simp add: rtspClientOpenConnection_def networkGetRemoteAddressName_def
      exampleIPv6Connection_def exampleIPv6Client_def MAX_ADDR_STRING_LENGTH_def
      MAX_URL_STRING_SIZE_def Let_def)

lemma exampleChallengedClient_reached:
  "rtspClientSendRequest md5 (exampleIPv6Client [Some exampleLongChallenge])
       RTSP_METHOD_OPTIONS None
     = (True, (exampleIPv6Client [Some exampleLongChallenge])
          \<lparr>networkConnection :=
             Some ((exampleIPv6Connection [Some exampleLongChallenge])
                     \<lparr>messagesSent := [exampleFirstOptions]\<rparr>),
           rtspRequest := Some \<lparr>requestMethod = RTSP_METHOD_OPTIONS,
                headerBuffer = ''CSeq: 1'' @ CRLF, contentBuffer = []\<rparr>,
           sequenceNumber := 1\<rparr>)"
  by (simp add: rtspClientSendRequest_def rtspClientAddHeaderFields_def
      rtspClientOptionsHeaderFieldsSupplier_def rtspClientClientGeneralHeaderFieldsSupplier_def
      addHeaderFieldToRequest_def rtspRequestAddHeaderField_def rtspRequestCreate_def
      rtspRequestSend_def networkSendMessage_def exampleIPv6Client_def
      exampleIPv6Connection_def exampleFirstOptions_def decimal_digit
      MAX_COMMAND_STRING_SIZE_def MAX_URL_STRING_SIZE_def MAX_ADDR_STRING_LENGTH_def
      CRLF_def Let_def)

lemma exampleRetryingClient_reached:
  "rtspClientReceiveResponse
     (snd (rtspClientSendRequest md5 (exampleIPv6Client [Some exampleLongChallenge])
             RTSP_METHOD_OPTIONS None))
     = (True, exampleChallengedClient
          \<lparr>rtspRequest := Some \<lparr>requestMethod = RTSP_METHOD_OPTIONS,
                headerBuffer = ''CSeq: 1'' @ CRLF, contentBuffer = []\<rparr>,
           sequenceNumber := 1, needAuthentication := True\<rparr>)"
  and "headerFieldsSupplierTable RTSP_METHOD_OPTIONS
     (exampleChallengedClient
        \<lparr>rtspRequest := Some (snd (rtspRequestReset
             \<lparr>requestMethod = RTSP_METHOD_OPTIONS,
              headerBuffer = ''CSeq: 1'' @ CRLF, contentBuffer = []\<rparr> RTSP_METHOD_OPTIONS)),
         sequenceNumber := 1, needAuthentication := True\<rparr>)
     = (True, exampleRetryingClient)"
  by (simp_all only: exampleChallengedClient_reached snd_conv)
    (simp_all add: rtspClientReceiveResponse_def
      rtspResponseReceive_def rtspResponseGetStatus_def exampleLongChallenge_def
      RTSP_RESPONSE_NEED_AUTHENTICATION_def exampleChallengedClient_def
      exampleRetryingClient_def exampleIPv6Client_def exampleIPv6Connection_def
      rtspClientOptionsHeaderFieldsSupplier_def rtspClientClientGeneralHeaderFieldsSupplier_def
      addHeaderFieldToRequest_def rtspRequestAddHeaderField_def rtspRequestReset_def
      decimal_digit Let_def)

text \<open>
  C9, as the code has it. When \<^verbatim>\<open>rtspClientAddAuthenticationFields\<close> returns true it has
  added one header field \<^verbatim>\<open>Authorization\<close>, and its value is the first 199 characters of
  the digest value of the protocol description, computed from the method of the request,
  the URL of the client and the realm and nonce the client then holds, with the user
  \<^verbatim>\<open>iTunes\<close> and the password \<^verbatim>\<open>geheim\<close> (the function has no other source for them).
  That description is 97 characters longer than realm, nonce and URL together: up to 102
  characters of those the header value is the described one exactly, beyond that it is cut
  off.
\<close>

theorem C9_authorization_value:
  assumes request: "rtspRequest c = Some r"
      and run: "rtspClientAddAuthenticationFields md5 c = (True, c')"
  shows "(\<exists>r'. rtspRequest c' = Some r'
            \<and> headerBuffer r' = headerBuffer r @ ''Authorization: ''
                  @ take 199 (digestAuthorization md5 (METHOD_NAMES (requestMethod r)) (url c)
                                (realm c') (nonce c'))
                  @ CRLF)
       \<and> (length (realm c') + length (nonce c') + length (url c) \<le> 102 \<longrightarrow>
            take 199 (digestAuthorization md5 (METHOD_NAMES (requestMethod r)) (url c)
                        (realm c') (nonce c'))
              = digestAuthorization md5 (METHOD_NAMES (requestMethod r)) (url c)
                  (realm c') (nonce c'))
       \<and> (102 < length (realm c') + length (nonce c') + length (url c) \<longrightarrow>
            take 199 (digestAuthorization md5 (METHOD_NAMES (requestMethod r)) (url c)
                        (realm c') (nonce c'))
              \<noteq> digestAuthorization md5 (METHOD_NAMES (requestMethod r)) (url c)
                  (realm c') (nonce c'))"
proof -
  let ?digest = "digestAuthorization md5 (METHOD_NAMES (requestMethod r)) (url c)
                  (realm c') (nonce c')"
  have len: "length ?digest = 97 + length (realm c') + length (nonce c') + length (url c)"
    by (rule digestAuthorization_length)
  have "take 199 ?digest = ?digest"
    if "length (realm c') + length (nonce c') + length (url c) \<le> 102"
    using that len by simp
  moreover have "take 199 ?digest \<noteq> ?digest"
    if "102 < length (realm c') + length (nonce c') + length (url c)"
  proof
    assume "take 199 ?digest = ?digest"
    then have "length (take 199 ?digest) = length ?digest"
      by simp
    then show False
      using that len by simp
  qed
  ultimately show ?thesis
    using rtspClientAddAuthenticationFields_value [OF request run] by simp
qed

text \<open>
  The theorem on the client challenged over IPv6: the value added is not the described
  one (with any function in the place of MD5; here the one that is 0 everywhere).
\<close>

lemma exampleRetryingClient_authenticates:
  "\<exists>c'. rtspClientAddAuthenticationFields md5 exampleRetryingClient = (True, c')
     \<and> realm c' = ''Living Room Speakers''
     \<and> nonce c' = ''0123456789abcdef0123456789abcdef01234567''"
  by (simp add: rtspClientAddAuthenticationFields_def exampleRetryingClient_def
      exampleChallengedClient_def exampleIPv6Client_def exampleLongChallenge_def
      rtspResponseGetAuthenticationResponse_def MAX_REALM_SIZE_def MAX_NONCE_SIZE_def
      addHeaderFieldToRequest_def rtspRequestAddHeaderField_def Let_def)

theorem C9_authorization_value_witness:
  "\<exists>c'. rtspClientAddAuthenticationFields (\<lambda>text. 0) exampleRetryingClient = (True, c')
     \<and> (\<exists>r'. rtspRequest c' = Some r'
           \<and> headerBuffer r' = ''CSeq: 2'' @ CRLF @ ''Authorization: ''
                 @ take 199 (digestAuthorization (\<lambda>text. 0) ''OPTIONS''
                     ''rtsp://2001:db8:85a3:8d3:1319:8a2e:370:7348/1''
                     ''Living Room Speakers'' ''0123456789abcdef0123456789abcdef01234567'')
                 @ CRLF)
     \<and> take 199 (digestAuthorization (\<lambda>text. 0) ''OPTIONS''
                     ''rtsp://2001:db8:85a3:8d3:1319:8a2e:370:7348/1''
                     ''Living Room Speakers'' ''0123456789abcdef0123456789abcdef01234567'')
         \<noteq> digestAuthorization (\<lambda>text. 0) ''OPTIONS''
                     ''rtsp://2001:db8:85a3:8d3:1319:8a2e:370:7348/1''
                     ''Living Room Speakers'' ''0123456789abcdef0123456789abcdef01234567''"
proof -
  obtain c' where run: "rtspClientAddAuthenticationFields (\<lambda>text. 0) exampleRetryingClient
        = (True, c')"
      and held: "realm c' = ''Living Room Speakers''"
        "nonce c' = ''0123456789abcdef0123456789abcdef01234567''"
    using exampleRetryingClient_authenticates [of "\<lambda>text. 0"] by blast
  have request: "rtspRequest exampleRetryingClient
      = Some \<lparr>requestMethod = RTSP_METHOD_OPTIONS,
                headerBuffer = ''CSeq: 2'' @ CRLF, contentBuffer = []\<rparr>"
    by (simp add: exampleRetryingClient_def)
  have target: "url exampleRetryingClient = ''rtsp://2001:db8:85a3:8d3:1319:8a2e:370:7348/1''"
    by (simp add: exampleRetryingClient_def exampleChallengedClient_def exampleIPv6Client_def)
  show ?thesis
    using C9_authorization_value [OF request run] run
    by (simp add: held target)
qed


subsection \<open>A second challenge\<close>

lemma rtspClientReceiveResponse_challenge:
  assumes "networkConnection c = Some nc"
      and "toReceive nc = Some response # later"
      and "statusLine response = Some 401"
  shows "rtspClientReceiveResponse c
           = (True, c\<lparr>rtspResponse := Some response,
                      networkConnection := Some (nc\<lparr>toReceive := later\<rparr>),
                      needAuthentication := True\<rparr>)"
  using assms
  by (simp add: rtspClientReceiveResponse_def rtspResponseReceive_def rtspResponseGetStatus_def
      RTSP_RESPONSE_NEED_AUTHENTICATION_def Let_def)

text \<open>
  C1, as the code has it. When the server answers a request with 401,
  \<^verbatim>\<open>rtspClientSendCommand\<close> builds and sends the request a second time, once. The
  response to that second request goes through \<^verbatim>\<open>rtspClientReceiveResponse\<close>, which
  returns true for a 401 and sets \<^verbatim>\<open>needAuthentication\<close>; \<^verbatim>\<open>rtspClientSendCommand\<close> does
  not look at the flag again. So when that response is a 401 as well, the command returns
  true (for every method but \<^verbatim>\<open>SETUP\<close>, whose response must also carry a session and a
  server port), with exactly two requests sent and the flag still set. Here the network
  takes every message, the content supplier succeeds, and the \<^verbatim>\<open>CSeq\<close> field of the
  second response is readable or absent.
\<close>

theorem C1_second_401_returns_true:
  assumes conn: "networkConnection c = Some nc"
      and short: "length (url c) \<le> MAX_URL_STRING_SIZE"
      and supp: "addsContent supplier"
      and taken: "sendResults nc = []"
      and responses: "toReceive nc = Some first # Some second # later"
      and first: "statusLine first = Some 401"
      and second: "statusLine second = Some 401"
      and cseq: "fieldCSeq second \<noteq> FieldUnreadable"
      and other: "requested \<noteq> RTSP_METHOD_SETUP"
  shows "\<exists>c' nc' request retry.
           rtspClientSendCommand md5 c requested supplier = (True, c', None)
         \<and> networkConnection c' = Some nc'
         \<and> messagesSent nc' = messagesSent nc @ [request, retry]
         \<and> toReceive nc' = later
         \<and> needAuthentication c'"
proof -
  obtain ok1 c1 where s1: "rtspClientSendRequest md5 c requested supplier = (ok1, c1)"
    by (cases "rtspClientSendRequest md5 c requested supplier") auto
  note a = rtspClientSendRequest_sends [OF conn short supp s1]
  from a(1) taken responses obtain nc1 request where nc1: "networkConnection c1 = Some nc1"
      "messagesSent nc1 = messagesSent nc @ [request]"
      "toReceive nc1 = Some first # Some second # later" "ok1" "sendResults nc1 = []"
    by auto
  define c2 where "c2 = c1\<lparr>rtspResponse := Some first,
      networkConnection := Some (nc1\<lparr>toReceive := Some second # later\<rparr>),
      needAuthentication := True\<rparr>"
  have r1: "rtspClientReceiveResponse c1 = (True, c2)"
    unfolding c2_def by (rule rtspClientReceiveResponse_challenge [OF nc1(1) nc1(3) first])
  have conn2: "networkConnection c2 = Some (nc1\<lparr>toReceive := Some second # later\<rparr>)"
    and short2: "length (url c2) \<le> MAX_URL_STRING_SIZE"
    and need2: "needAuthentication c2"
    using short a(3) by (simp_all add: c2_def)
  obtain ok3 c3 where s2: "rtspClientSendRequest md5 c2 requested supplier = (ok3, c3)"
    by (cases "rtspClientSendRequest md5 c2 requested supplier") auto
  note d = rtspClientSendRequest_sends [OF conn2 short2 supp s2]
  from d(1) nc1(5) obtain nc3 retry where nc3: "networkConnection c3 = Some nc3"
      "messagesSent nc3 = messagesSent nc1 @ [retry]"
      "toReceive nc3 = Some second # later" "ok3"
    by auto
  define c4 where "c4 = c3\<lparr>rtspResponse := Some second,
      networkConnection := Some (nc3\<lparr>toReceive := later\<rparr>),
      needAuthentication := True\<rparr>"
  have r2: "rtspClientReceiveResponse c3 = (True, c4)"
    unfolding c4_def by (rule rtspClientReceiveResponse_challenge [OF nc3(1) nc3(3) second])
  have number: "rtspResponseGetSequenceNumber second \<noteq> None"
    using cseq by (cases "fieldCSeq second") (simp_all add: rtspResponseGetSequenceNumber_def)
  have "rtspClientSendCommand md5 c requested supplier = (True, c4, None)"
    using s1 nc1(4) r1 need2 s2 nc3(4) r2 number other
    unfolding rtspClientSendCommand_def
    by (auto simp: c4_def split: option.splits)
  moreover have "networkConnection c4 = Some (nc3\<lparr>toReceive := later\<rparr>)"
      "needAuthentication c4"
    by (simp_all add: c4_def)
  ultimately show ?thesis
    using nc1(2) nc3(2)
    by (intro exI [of _ c4] exI [of _ "nc3\<lparr>toReceive := later\<rparr>"]
        exI [of _ request] exI [of _ retry]) simp
qed

text \<open>
  The theorem on the receiver that challenges both the \<^verbatim>\<open>OPTIONS\<close> request and its
  retransmission.
\<close>

theorem C1_second_401_returns_true_witness:
  "\<exists>c' nc' request retry.
     rtspClientSendCommand (\<lambda>text. 0)
         (exampleRtspClient [Some (exampleChallenge 1), Some (exampleChallenge 2)])
         RTSP_METHOD_OPTIONS None = (True, c', None)
   \<and> networkConnection c' = Some nc'
   \<and> messagesSent nc'
       = messagesSent (exampleRtspConnection [Some (exampleChallenge 1), Some (exampleChallenge 2)])
           @ [request, retry]
   \<and> toReceive nc' = []
   \<and> needAuthentication c'"
  by (rule C1_second_401_returns_true
      [where nc = "exampleRtspConnection [Some (exampleChallenge 1), Some (exampleChallenge 2)]"
         and first = "exampleChallenge 1" and second = "exampleChallenge 2"])
    (simp_all add: exampleRtspClient_def exampleRtspConnection_def exampleChallenge_def
      addsContent_def MAX_URL_STRING_SIZE_def MAX_ADDR_STRING_LENGTH_def)

text \<open>The two requests of that run, with the function that is 0 everywhere in the place of MD5.\<close>

lemma digestString_zero: "digestString 0 = ''00000000000000000000000000000000''"
  by (simp add: digestString_def DIGEST_SIZE_def upt_rec)

lemma exampleDoubleChallenge_requests:
  "map_option messagesSent
     (networkConnection (fst (snd (rtspClientSendCommand (\<lambda>text. 0)
         (exampleRtspClient [Some (exampleChallenge 1), Some (exampleChallenge 2)])
         RTSP_METHOD_OPTIONS None))))
   = Some [''OPTIONS * RTSP/1.0'' @ CRLF @ ''CSeq: 1'' @ CRLF @ CRLF,
           ''OPTIONS * RTSP/1.0'' @ CRLF @ ''CSeq: 2'' @ CRLF @ ''Authorization: ''
             @ digestAuthorization (\<lambda>text. 0) ''OPTIONS'' ''rtsp://192.168.1.10/1''
                 ''AppleTV'' ''abcdef''
             @ CRLF @ CRLF]"
  by (simp add: rtspClientSendCommand_def rtspClientSendRequest_def rtspClientAddHeaderFields_def
      rtspClientOptionsHeaderFieldsSupplier_def rtspClientClientGeneralHeaderFieldsSupplier_def
      rtspClientAddAuthenticationFields_def rtspResponseGetAuthenticationResponse_def
      rtspClientReceiveResponse_def rtspResponseReceive_def rtspResponseGetStatus_def
      rtspResponseGetSequenceNumber_def RTSP_RESPONSE_NEED_AUTHENTICATION_def
      addHeaderFieldToRequest_def rtspRequestAddHeaderField_def rtspRequestCreate_def
      rtspRequestReset_def rtspRequestGetMethodName_def
      rtspRequestSend_def networkSendMessage_def exampleRtspClient_def
      exampleRtspConnection_def exampleChallenge_def decimal_digit digestString_zero
      digestAuthorization_def doubleQuote_def
      MAX_REALM_SIZE_def MAX_NONCE_SIZE_def MAX_AUTHENTICATION_BUFFER_SIZE_def
      MAX_COMMAND_STRING_SIZE_def MAX_URL_STRING_SIZE_def MAX_ADDR_STRING_LENGTH_def
      CRLF_def Let_def cong: weak_congs)


subsection \<open>Setting the volume\<close>





lemma raopClientSetVolume_clamps:
  "(if v < VOLUME_MIN_VALUE then VOLUME_MUTED else v) = (if v < 1 / 100 then 0 else v)"
  by (simp add: VOLUME_MIN_VALUE_def VOLUME_MUTED_def)






end
